theory Spec2Isabelle
  imports Main
begin

section \<open>Data model of \<open>data/data.py\<close>\<close>

text \<open>
  The class \<open>Data\<close> holds the rotation state of the scoreboard. Its methods mutate the
  object and may raise; here every method takes the state and returns the (possibly
  partly updated) state together with either a value or the exception that escaped.
\<close>

datatype py_error =
  IndexError | KeyError | AttributeError | StopIteration | TypeError | ValueError | OverflowError

text \<open>An instance attribute is either never assigned (reading it raises AttributeError) or holds a value.\<close>

datatype 'a attr = Unset | Assigned 'a

text \<open>One entry of \<open>statsapi.schedule\<close>: the four keys the class reads.\<close>

record game =
  game_id :: int
  away_name :: string
  home_name :: string
  status :: string

text \<open>
  The record returned by \<open>statsapi.get("game", ...)\<close>, with the fields the class reads:
  \<open>gameData.game.id\<close>, \<open>gameData.status.detailedState\<close>, \<open>gameData.flags.noHitter\<close>,
  \<open>gameData.flags.perfectGame\<close> and \<open>liveData.linescore.inningState\<close>. The last one is
  optional in the source itself (it is read with \<open>.get("inningState", "Top")\<close> in one place
  and by subscript in another).
\<close>

record game_detail =
  gd_id :: int
  detailedState :: string
  noHitter :: bool
  perfectGame :: bool
  inningState :: "string option"

record division =
  name :: string
  rows :: "string list"

record standings_obj =
  divisions :: "division list"

datatype layout_state = LAYOUT_STATE_DEFAULT | LAYOUT_STATE_WARMUP | LAYOUT_STATE_NOHIT | LAYOUT_STATE_PERFECT

text \<open>
  A \<open>datetime\<close>: the proleptic ordinal of its calendar date (0001-01-01, the earliest date the
  type holds, has ordinal 1) and the microsecond within the day.
\<close>

record datetime =
  ordinal :: int
  usec :: nat

record config =
  preferred_teams :: "string list"
  preferred_divisions :: "string list"
  rotation_enabled :: bool
  rotation_only_preferred :: bool
  rotation_preferred_team_live_mid_inning :: bool
  demo_date :: "string option"
  end_of_day :: string

text \<open>
  What the class imports and this file does not contain: the table \<open>data.teams.TEAM_FULL\<close>,
  the predicates and the constant of \<open>data.status.Status\<close>, and the two \<open>strptime\<close> formats
  (\<open>None\<close> where \<open>strptime\<close> raises ValueError). They are parameters of the model.
\<close>

record env =
  TEAM_FULL :: "string \<Rightarrow> string option"
  is_live :: "string \<Rightarrow> bool"
  is_inning_break :: "string \<Rightarrow> bool"
  is_fresh :: "string \<Rightarrow> bool"
  WARMUP :: string
  strptime_ymd :: "string \<Rightarrow> int option"
  strptime_hm :: "string \<Rightarrow> (nat \<times> nat) option"

text \<open>The attributes of a \<open>Data\<close> object; \<open>layout\<close> is the state of \<open>config.layout\<close>.\<close>

record data =
  today :: datetime
  needs_refresh :: bool
  current_game_index :: nat
  current_division_index :: nat
  games :: "game list"
  standings :: "standings_obj attr"
  network_issues :: bool
  game_data :: "game_detail option attr"
  layout :: layout_state

section \<open>Date\<close>

definition datetime_gt :: "datetime \<Rightarrow> datetime \<Rightarrow> bool" where
  "datetime_gt a b = (ordinal a > ordinal b \<or> (ordinal a = ordinal b \<and> usec a > usec b))"

text \<open>
  \<open>__parse_today\<close>. The clock is read twice: \<open>now1\<close> is \<open>datetime.today()\<close> and \<open>now2\<close> is
  \<open>datetime.now()\<close>. A falsy \<open>demo_date\<close> is \<open>None\<close> or the empty string. Subtracting a day
  from a \<open>datetime\<close> on 0001-01-01 raises OverflowError.
\<close>

definition parse_today :: "env \<Rightarrow> config \<Rightarrow> datetime \<Rightarrow> datetime \<Rightarrow> py_error + datetime" where
  "parse_today e cfg now1 now2 =
     (case demo_date cfg of
        Some (c # cs) \<Rightarrow>
          (case strptime_ymd e (c # cs) of
             None \<Rightarrow> Inl ValueError
           | Some d \<Rightarrow> Inr \<lparr>ordinal = d, usec = 0\<rparr>)
      | _ \<Rightarrow>
          (case strptime_hm e (end_of_day cfg) of
             None \<Rightarrow> Inl ValueError
           | Some (h, m) \<Rightarrow>
               (let end_of_day_dt = \<lparr>ordinal = ordinal now1, usec = (h * 60 + m) * 60 * 1000000\<rparr>
                in if datetime_gt end_of_day_dt now2
                   then (if ordinal now1 - 1 < 1 then Inl OverflowError
                         else Inr (now1\<lparr>ordinal := ordinal now1 - 1\<rparr>))
                   else Inr now1)))"

text \<open>\<open>date\<close>: the calendar date of \<open>today\<close> (the source formats it as a string).\<close>

definition date :: "data \<Rightarrow> int" where
  "date s = ordinal (today s)"

section \<open>Games\<close>

definition current_game :: "data \<Rightarrow> py_error + game" where
  "current_game s =
     (if current_game_index s < length (games s) then Inr (games s ! current_game_index s)
      else Inl IndexError)"

definition next_game_index :: "data \<Rightarrow> nat" where
  "next_game_index s =
     (let counter = current_game_index s + 1
      in if counter \<ge> length (games s) then 0 else counter)"

definition game_index_for :: "env \<Rightarrow> data \<Rightarrow> string \<Rightarrow> py_error + nat" where
  "game_index_for e s team_name =
     (case TEAM_FULL e team_name of
        None \<Rightarrow> Inl KeyError
      | Some full \<Rightarrow>
          (let team_idxs = map fst (filter (\<lambda>(i, g). full \<in> set [away_name g, home_name g])
                                           (enumerate 0 (games s)))
           in if length team_idxs > 0
              then (case filter (\<lambda>i. is_live e (status (games s ! i))) team_idxs of
                      [] \<Rightarrow> Inr (team_idxs ! 0)
                    | i # _ \<Rightarrow> Inr i)
              else Inr (current_game_index s)))"

definition game_index_for_preferred_team :: "env \<Rightarrow> config \<Rightarrow> data \<Rightarrow> py_error + nat" where
  "game_index_for_preferred_team e cfg s =
     (case preferred_teams cfg of
        [] \<Rightarrow> Inr (current_game_index s)
      | t # _ \<Rightarrow> game_index_for e s t)"

text \<open>The list comprehension \<open>[TEAM_FULL[t] for t in filter_teams]\<close>.\<close>

fun full_names :: "env \<Rightarrow> string list \<Rightarrow> py_error + string list" where
  "full_names e [] = Inr []"
| "full_names e (t # ts) =
     (case TEAM_FULL e t of
        None \<Rightarrow> Inl KeyError
      | Some n \<Rightarrow> (case full_names e ts of Inl x \<Rightarrow> Inl x | Inr ns \<Rightarrow> Inr (n # ns)))"

definition filter_list_of_games :: "env \<Rightarrow> game list \<Rightarrow> string list \<Rightarrow> py_error + game list" where
  "filter_list_of_games e gs filter_teams =
     (case full_names e filter_teams of
        Inl x \<Rightarrow> Inl x
      | Inr teams \<Rightarrow> Inr (filter (\<lambda>g. set [away_name g, home_name g] \<inter> set teams \<noteq> {}) gs))"

text \<open>
  The generator inside \<open>any(...)\<close> of \<open>is_offday_for_preferred_team\<close>: the table is read once
  per game, and the scan stops at the first game of the team.
\<close>

fun any_game_of :: "env \<Rightarrow> string \<Rightarrow> game list \<Rightarrow> py_error + bool" where
  "any_game_of e t [] = Inr False"
| "any_game_of e t (g # gs) =
     (case TEAM_FULL e t of
        None \<Rightarrow> Inl KeyError
      | Some full \<Rightarrow> if full \<in> set [away_name g, home_name g] then Inr True else any_game_of e t gs)"

definition is_offday_for_preferred_team :: "env \<Rightarrow> config \<Rightarrow> data \<Rightarrow> py_error + bool" where
  "is_offday_for_preferred_team e cfg s =
     (case preferred_teams cfg of
        [] \<Rightarrow> Inr True
      | t # _ \<Rightarrow> (case any_game_of e t (games s) of Inl x \<Rightarrow> Inl x | Inr b \<Rightarrow> Inr (\<not> b)))"

definition is_offday :: "data \<Rightarrow> bool" where
  "is_offday s = (length (games s) = 0)"

section \<open>Standings rotation\<close>

definition next_division_index :: "config \<Rightarrow> data \<Rightarrow> nat" where
  "next_division_index cfg s =
     (let counter = current_division_index s + 1
      in if counter \<ge> length (preferred_divisions cfg) then 0 else counter)"

definition standings_for :: "data \<Rightarrow> string \<Rightarrow> py_error + division" where
  "standings_for s division_name =
     (case standings s of
        Unset \<Rightarrow> Inl AttributeError
      | Assigned st \<Rightarrow>
          (case filter (\<lambda>d. name d = division_name) (divisions st) of
             [] \<Rightarrow> Inl StopIteration
           | d # _ \<Rightarrow> Inr d))"

definition current_standings :: "config \<Rightarrow> data \<Rightarrow> py_error + division" where
  "current_standings cfg s =
     (if current_division_index s < length (preferred_divisions cfg)
      then standings_for s (preferred_divisions cfg ! current_division_index s)
      else Inl IndexError)"

definition standings_for_preferred_division :: "config \<Rightarrow> data \<Rightarrow> py_error + division" where
  "standings_for_preferred_division cfg s =
     (case preferred_divisions cfg of
        [] \<Rightarrow> Inl IndexError
      | d # _ \<Rightarrow> standings_for s d)"

definition advance_to_next_standings :: "config \<Rightarrow> data \<Rightarrow> (py_error + division) \<times> data" where
  "advance_to_next_standings cfg s =
     (let s1 = s\<lparr>current_division_index := next_division_index cfg s\<rparr>
      in (current_standings cfg s1, s1))"

section \<open>Refreshing from the upstream provider\<close>

text \<open>
  Every upstream call is a parameter giving its outcome, \<open>None\<close> when the call raises:
  \<open>fetch_standings\<close> for \<open>Standings(self.today)\<close>, \<open>schedule\<close> for \<open>statsapi.schedule\<close>,
  and \<open>get\<close> for \<open>statsapi.get("game", {"gamePk": ...})\<close>. Log lines and
  \<open>games_refresh_time\<close> are left out.
\<close>

definition refresh_standings :: "(datetime \<Rightarrow> standings_obj option) \<Rightarrow> data \<Rightarrow> data" where
  "refresh_standings fetch_standings s =
     (case fetch_standings (today s) of
        None \<Rightarrow> s
      | Some st \<Rightarrow> s\<lparr>standings := Assigned st\<rparr>)"

definition get_games ::
  "env \<Rightarrow> config \<Rightarrow> (int \<Rightarrow> game list option) \<Rightarrow> data \<Rightarrow> (py_error + game list) \<times> data" where
  "get_games e cfg schedule s =
     (case schedule (date s) of
        None \<Rightarrow> (Inr [], s\<lparr>network_issues := True\<rparr>)
      | Some all_games \<Rightarrow>
          (let s1 = s\<lparr>network_issues := False\<rparr>
           in if rotation_only_preferred cfg
              then (filter_list_of_games e all_games (preferred_teams cfg), s1)
              else (Inr all_games, s1)))"

definition refresh_games ::
  "env \<Rightarrow> config \<Rightarrow> (int \<Rightarrow> game list option) \<Rightarrow> data \<Rightarrow> (py_error + unit) \<times> data" where
  "refresh_games e cfg schedule s =
     (case get_games e cfg schedule s of
        (Inl x, s1) \<Rightarrow> (Inl x, s1)
      | (Inr gs, s1) \<Rightarrow> (Inr (), s1\<lparr>games := gs\<rparr>))"

definition update_layout_state :: "env \<Rightarrow> data \<Rightarrow> (py_error + unit) \<times> data" where
  "update_layout_state e s =
     (let s1 = s\<lparr>layout := LAYOUT_STATE_DEFAULT\<rparr>
      in case game_data s1 of
           Unset \<Rightarrow> (Inl AttributeError, s1)
         | Assigned None \<Rightarrow> (Inl TypeError, s1)
         | Assigned (Some d) \<Rightarrow>
             (let s2 = (if detailedState d = WARMUP e then s1\<lparr>layout := LAYOUT_STATE_WARMUP\<rparr> else s1);
                  s3 = (if noHitter d then s2\<lparr>layout := LAYOUT_STATE_NOHIT\<rparr> else s2);
                  s4 = (if perfectGame d then s3\<lparr>layout := LAYOUT_STATE_PERFECT\<rparr> else s3)
              in (Inr (), s4)))"

definition fetch_preferred_team_game_data ::
  "env \<Rightarrow> config \<Rightarrow> (int \<Rightarrow> game_detail option) \<Rightarrow> data \<Rightarrow> (py_error + game_detail option) \<times> data" where
  "fetch_preferred_team_game_data e cfg get s =
     (case is_offday_for_preferred_team e cfg s of
        Inl x \<Rightarrow> (Inl x, s)
      | Inr True \<Rightarrow> (Inr None, s)
      | Inr False \<Rightarrow>
          (case game_index_for_preferred_team e cfg s of
             Inl x \<Rightarrow> (Inl x, s)
           | Inr i \<Rightarrow>
               if i < length (games s)
               then (case get (game_id (games s ! i)) of
                       None \<Rightarrow>
                         (case game_data s of
                            Unset \<Rightarrow> (Inl AttributeError, s)
                          | Assigned v \<Rightarrow> (Inr v, s\<lparr>network_issues := True\<rparr>))
                     | Some d \<Rightarrow> (Inr (Some d), s\<lparr>network_issues := False\<rparr>))
               else (Inl IndexError, s)))"

text \<open>
  The condition of the interrupt in \<open>advance_to_next_game\<close>:
  \<open>network_issues or (is_live(detailedState) and not is_inning_break(inningState))\<close>,
  with Python's short-circuit evaluation.
\<close>

definition interrupt_condition :: "env \<Rightarrow> data \<Rightarrow> game_detail option \<Rightarrow> py_error + bool" where
  "interrupt_condition e s preferred_game_data =
     (if network_issues s then Inr True
      else case preferred_game_data of
             None \<Rightarrow> Inl TypeError
           | Some d \<Rightarrow>
               if is_live e (detailedState d)
               then (case inningState d of
                       None \<Rightarrow> Inl KeyError
                     | Some st \<Rightarrow> Inr (\<not> is_inning_break e st))
               else Inr False)"

definition advance_plain :: "data \<Rightarrow> (py_error + game) \<times> data" where
  "advance_plain s =
     (let s1 = s\<lparr>current_game_index := next_game_index s\<rparr>
      in (current_game s1, s1))"

definition advance_to_next_game ::
  "env \<Rightarrow> config \<Rightarrow> (int \<Rightarrow> game_detail option) \<Rightarrow> data \<Rightarrow> (py_error + game) \<times> data" where
  "advance_to_next_game e cfg get s =
     (if rotation_preferred_team_live_mid_inning cfg
      then (case is_offday_for_preferred_team e cfg s of
              Inl x \<Rightarrow> (Inl x, s)
            | Inr True \<Rightarrow> advance_plain s
            | Inr False \<Rightarrow>
                (case fetch_preferred_team_game_data e cfg get s of
                   (Inl x, s1) \<Rightarrow> (Inl x, s1)
                 | (Inr preferred_game_data, s1) \<Rightarrow>
                     (case interrupt_condition e s1 preferred_game_data of
                        Inl x \<Rightarrow> (Inl x, s1)
                      | Inr False \<Rightarrow> advance_plain s1
                      | Inr True \<Rightarrow>
                          (case game_index_for_preferred_team e cfg s1 of
                             Inl x \<Rightarrow> (Inl x, s1)
                           | Inr i \<Rightarrow>
                               (case update_layout_state e
                                       (s1\<lparr>current_game_index := i,
                                           game_data := Assigned preferred_game_data,
                                           needs_refresh := False\<rparr>) of
                                  (Inl x, s2) \<Rightarrow> (Inl x, s2)
                                | (Inr _, s2) \<Rightarrow> (current_game s2, s2))))))
      else advance_plain s)"

text \<open>
  \<open>refresh_game_data\<close>. \<open>get1\<close> answers the fetch of the current game, \<open>get2\<close> the fetch that
  \<open>advance_to_next_game\<close> may make afterwards. The subscript \<open>self.current_game()\<close> is inside
  the \<open>try\<close>, so its IndexError is caught by the bare \<open>except\<close> like a failed call.
\<close>

definition refresh_game_data ::
  "env \<Rightarrow> config \<Rightarrow> (int \<Rightarrow> game_detail option) \<Rightarrow> (int \<Rightarrow> game_detail option) \<Rightarrow> data
     \<Rightarrow> (py_error + unit) \<times> data" where
  "refresh_game_data e cfg get1 get2 s =
     (case (case current_game s of Inl _ \<Rightarrow> None | Inr g \<Rightarrow> get1 (game_id g)) of
        Some d \<Rightarrow>
          (case update_layout_state e (s\<lparr>game_data := Assigned (Some d)\<rparr>) of
             (Inl x, s1) \<Rightarrow> (Inl x, s1)
           | (Inr _, s1) \<Rightarrow> (Inr (), s1\<lparr>needs_refresh := False, network_issues := False\<rparr>))
      | None \<Rightarrow>
          (let s1 = s\<lparr>network_issues := True\<rparr>
           in if rotation_enabled cfg
              then (case advance_to_next_game e cfg get2 s1 of
                      (Inl x, s2) \<Rightarrow> (Inl x, s2)
                    | (Inr _, s2) \<Rightarrow> (Inr (), s2))
              else (Inr (), s1)))"

definition games_live :: "env \<Rightarrow> data \<Rightarrow> bool" where
  "games_live e s =
     list_ex (\<lambda>g. is_fresh e (status g) \<or> (is_live e (status g) \<or> status g = WARMUP e)) (games s)"

text \<open>
  \<open>Data.__init__\<close> up to the network flag (the weather and headline objects are not part of
  the rotation state). No statement of it assigns \<open>game_data\<close>.
\<close>

definition Data_init ::
  "env \<Rightarrow> config \<Rightarrow> datetime \<Rightarrow> datetime \<Rightarrow> (int \<Rightarrow> game list option)
     \<Rightarrow> (datetime \<Rightarrow> standings_obj option) \<Rightarrow> py_error + data" where
  "Data_init e cfg now1 now2 schedule fetch_standings =
     (case parse_today e cfg now1 now2 of
        Inl x \<Rightarrow> Inl x
      | Inr t \<Rightarrow>
          (let s0 = \<lparr>today = t, needs_refresh = True, current_game_index = 0,
                     current_division_index = 0, games = [], standings = Unset,
                     network_issues = False, game_data = Unset, layout = LAYOUT_STATE_DEFAULT\<rparr>
           in case refresh_games e cfg schedule s0 of
                (Inl x, _) \<Rightarrow> Inl x
              | (Inr _, s1) \<Rightarrow>
                  (case game_index_for_preferred_team e cfg s1 of
                     Inl x \<Rightarrow> Inl x
                   | Inr i \<Rightarrow>
                       Inr ((refresh_standings fetch_standings (s1\<lparr>current_game_index := i\<rparr>))
                              \<lparr>network_issues := False\<rparr>))))"

section \<open>Concrete inputs\<close>

text \<open>A small table, classifier and configuration, and states built from them, for evaluating the operations.\<close>

definition ex_env :: env where
  "ex_env = \<lparr>TEAM_FULL = map_of [(''yankees'', ''Yankees''), (''cubs'', ''Cubs'')],
             is_live = (\<lambda>st. st = ''In Progress''),
             is_inning_break = (\<lambda>st. st = ''Middle'' \<or> st = ''End''),
             is_fresh = (\<lambda>st. st = ''Scheduled''),
             WARMUP = ''Warmup'',
             strptime_ymd = (\<lambda>x. if x = ''2021-04-01'' then Some 737881 else None),
             strptime_hm = (\<lambda>x. if x = ''03:00'' then Some (3, 0) else None)\<rparr>"

definition ex_cfg :: config where
  "ex_cfg = \<lparr>preferred_teams = [''yankees''],
             preferred_divisions = [''AL East'', ''NL Central''],
             rotation_enabled = True,
             rotation_only_preferred = False,
             rotation_preferred_team_live_mid_inning = True,
             demo_date = None,
             end_of_day = ''03:00''\<rparr>"

definition ex_games :: "game list" where
  "ex_games = [\<lparr>game_id = 1, away_name = ''Yankees'', home_name = ''Red Sox'', status = ''In Progress''\<rparr>,
               \<lparr>game_id = 2, away_name = ''Mets'', home_name = ''Cubs'', status = ''Scheduled''\<rparr>]"

definition ex_doubleheader :: "game list" where
  "ex_doubleheader = [\<lparr>game_id = 7, away_name = ''Mets'', home_name = ''Cubs'', status = ''Scheduled''\<rparr>,
                      \<lparr>game_id = 8, away_name = ''Yankees'', home_name = ''Red Sox'', status = ''Final''\<rparr>,
                      \<lparr>game_id = 9, away_name = ''Red Sox'', home_name = ''Yankees'', status = ''In Progress''\<rparr>]"

definition ex_detail :: game_detail where
  "ex_detail = \<lparr>gd_id = 1, detailedState = ''In Progress'', noHitter = False, perfectGame = False,
                inningState = Some ''Top''\<rparr>"

definition ex_standings :: standings_obj where
  "ex_standings = \<lparr>divisions = [\<lparr>name = ''AL East'', rows = [''Yankees'', ''Red Sox'']\<rparr>,
                                 \<lparr>name = ''NL Central'', rows = [''Cubs'']\<rparr>]\<rparr>"

definition ex_now :: datetime where
  "ex_now = \<lparr>ordinal = 737881, usec = 43200000000\<rparr>"

text \<open>A state in the middle of a day: two games, the cursor on the first, a detail record cached.\<close>

definition ex_data :: data where
  "ex_data = \<lparr>today = ex_now, needs_refresh = True, current_game_index = 0,
              current_division_index = 0, games = ex_games, standings = Assigned ex_standings,
              network_issues = False, game_data = Assigned (Some ex_detail),
              layout = LAYOUT_STATE_DEFAULT\<rparr>"

text \<open>The state the constructor leaves when both of its upstream calls succeed.\<close>

definition ex_fresh :: data where
  "ex_fresh = \<lparr>today = ex_now, needs_refresh = True, current_game_index = 0,
               current_division_index = 0, games = ex_games, standings = Assigned ex_standings,
               network_issues = False, game_data = Unset, layout = LAYOUT_STATE_DEFAULT\<rparr>"

section \<open>Auxiliary facts\<close>

lemma update_layout_state_ok:
  "game_data s = Assigned (Some d) \<Longrightarrow> \<exists>l. update_layout_state e s = (Inr (), s\<lparr>layout := l\<rparr>)"
  by (auto simp: update_layout_state_def Let_def intro: exI)

lemma any_game_of_True:
  "any_game_of e t gs = Inr True \<Longrightarrow>
     \<exists>full. TEAM_FULL e t = Some full \<and> (\<exists>g \<in> set gs. away_name g = full \<or> home_name g = full)"
  by (induction gs) (auto split: option.splits if_splits)

lemma any_game_of_False:
  "any_game_of e t gs = Inr False \<Longrightarrow> TEAM_FULL e t = Some full \<Longrightarrow>
     \<forall>g \<in> set gs. away_name g \<noteq> full \<and> home_name g \<noteq> full"
  by (induction gs) (auto split: option.splits if_splits)

lemma any_game_of_resolved:
  "TEAM_FULL e t = Some full \<Longrightarrow>
     any_game_of e t gs = Inr (\<exists>g \<in> set gs. away_name g = full \<or> home_name g = full)"
  by (induction gs) auto

lemma team_idxs_eq:
  "map fst (filter (\<lambda>(i, g). P g) (enumerate 0 gs)) = filter (\<lambda>i. P (gs ! i)) [0..<length gs]"
proof (induction gs rule: rev_induct)
  case Nil
  show ?case by simp
next
  case (snoc x xs)
  have "enumerate 0 (xs @ [x]) = enumerate 0 xs @ [(length xs, x)]"
    by (simp add: enumerate_append_eq)
  moreover have "filter (\<lambda>i. P ((xs @ [x]) ! i)) [0..<length xs] = filter (\<lambda>i. P (xs ! i)) [0..<length xs]"
    by (rule filter_cong) (auto simp: nth_append)
  ultimately show ?case using snoc by simp
qed

lemma filter_upt_Cons:
  "filter P [0..<n] = i # r \<Longrightarrow> i < n \<and> P i \<and> (\<forall>j<i. \<not> P j)"
proof (induction n arbitrary: r)
  case 0
  then show ?case by simp
next
  case (Suc n)
  show ?case
  proof (cases "filter P [0..<n]")
    case Nil
    with Suc.prems have "P n" "i = n" by (auto split: if_splits)
    moreover from Nil have "\<forall>j<n. \<not> P j" by (auto simp: filter_empty_conv)
    ultimately show ?thesis by simp
  next
    case (Cons a as)
    with Suc.prems have "i = a" by (auto split: if_splits)
    with Suc.IH [OF Cons[unfolded \<open>i = a\<close>[symmetric]]] show ?thesis by auto
  qed
qed

lemma game_index_for_least:
  assumes a: "TEAM_FULL e t = Some full"
  shows "\<exists>r. game_index_for e s t = Inr r \<and>
         ((\<exists>i<length (games s). (away_name (games s ! i) = full \<or> home_name (games s ! i) = full)
               \<and> is_live e (status (games s ! i))) \<longrightarrow>
            r < length (games s) \<and> (away_name (games s ! r) = full \<or> home_name (games s ! r) = full)
              \<and> is_live e (status (games s ! r))
              \<and> (\<forall>j<r. \<not> ((away_name (games s ! j) = full \<or> home_name (games s ! j) = full)
                              \<and> is_live e (status (games s ! j))))) \<and>
         (\<not> (\<exists>i<length (games s). (away_name (games s ! i) = full \<or> home_name (games s ! i) = full)
               \<and> is_live e (status (games s ! i))) \<and>
          (\<exists>i<length (games s). away_name (games s ! i) = full \<or> home_name (games s ! i) = full) \<longrightarrow>
            r < length (games s) \<and> (away_name (games s ! r) = full \<or> home_name (games s ! r) = full)
              \<and> (\<forall>j<r. \<not> (away_name (games s ! j) = full \<or> home_name (games s ! j) = full))) \<and>
         (\<not> (\<exists>i<length (games s). away_name (games s ! i) = full \<or> home_name (games s ! i) = full) \<longrightarrow>
            r = current_game_index s)"
proof -
  let ?n = "length (games s)"
  let ?P = "\<lambda>i. full \<in> set [away_name (games s ! i), home_name (games s ! i)]"
  let ?Q = "\<lambda>i. is_live e (status (games s ! i))"
  define idxs where "idxs = filter ?P [0..<?n]"
  define lives where "lives = filter ?Q idxs"
  have P_iff: "\<And>i. ?P i \<longleftrightarrow> (away_name (games s ! i) = full \<or> home_name (games s ! i) = full)"
    by auto
  have idx: "map fst (filter (\<lambda>(i, g). full \<in> set [away_name g, home_name g]) (enumerate 0 (games s))) = idxs"
    unfolding idxs_def by (rule team_idxs_eq)
  have res: "game_index_for e s t =
      (if length idxs > 0
       then (case lives of [] \<Rightarrow> Inr (idxs ! 0) | i # _ \<Rightarrow> Inr i)
       else Inr (current_game_index s))"
    using a by (simp only: game_index_for_def idx Let_def option.case lives_def)
  have live: "lives = filter (\<lambda>i. ?P i \<and> ?Q i) [0..<?n]"
    unfolding lives_def idxs_def by (simp add: conj_commute)
  show ?thesis
  proof (cases idxs)
    case Nil
    then have none: "\<forall>i<?n. \<not> ?P i" unfolding idxs_def by (auto simp: filter_empty_conv)
    from Nil res have "game_index_for e s t = Inr (current_game_index s)" by simp
    with none show ?thesis unfolding P_iff by blast
  next
    case (Cons a as)
    then have "filter ?P [0..<?n] = a # as" by (simp add: idxs_def)
    from filter_upt_Cons [OF this] have fa: "a < ?n" "?P a" "\<forall>j<a. \<not> ?P j" by blast+
    show ?thesis
    proof (cases lives)
      case Nil
      with live have "filter (\<lambda>i. ?P i \<and> ?Q i) [0..<?n] = []" by simp
      then have nolive: "\<forall>i<?n. \<not> (?P i \<and> ?Q i)" by (auto simp: filter_empty_conv)
      from Nil \<open>idxs = a # as\<close> res have "game_index_for e s t = Inr a" by simp
      with fa nolive show ?thesis unfolding P_iff by blast
    next
      case (Cons b bs)
      with live have "filter (\<lambda>i. ?P i \<and> ?Q i) [0..<?n] = b # bs" by simp
      from filter_upt_Cons [OF this] have fb: "b < ?n" "?P b" "?Q b" "\<forall>j<b. \<not> (?P j \<and> ?Q j)" by blast+
      from Cons \<open>idxs = a # as\<close> res have "game_index_for e s t = Inr b" by simp
      with fb show ?thesis unfolding P_iff by blast
    qed
  qed
qed

section \<open>Selecting the preferred team's game\<close>

text \<open>
  C4. With no preferred team configured the selected index is the current index. Otherwise,
  with the first preferred team resolved to its full name, the result is the least catalog
  position of that team whose status is live if there is one, else the least position of
  that team, and the current index when the team has no game; no exception is raised.
\<close>

theorem preferred_team_index:
  "(preferred_teams cfg = [] \<longrightarrow>
      game_index_for_preferred_team e cfg s = Inr (current_game_index s)) \<and>
   (\<forall>t ts full. preferred_teams cfg = t # ts \<and> TEAM_FULL e t = Some full \<longrightarrow>
      (\<exists>r. game_index_for_preferred_team e cfg s = Inr r \<and>
         ((\<exists>i<length (games s). (away_name (games s ! i) = full \<or> home_name (games s ! i) = full)
               \<and> is_live e (status (games s ! i))) \<longrightarrow>
            r < length (games s) \<and> (away_name (games s ! r) = full \<or> home_name (games s ! r) = full)
              \<and> is_live e (status (games s ! r))
              \<and> (\<forall>j<r. \<not> ((away_name (games s ! j) = full \<or> home_name (games s ! j) = full)
                              \<and> is_live e (status (games s ! j))))) \<and>
         (\<not> (\<exists>i<length (games s). (away_name (games s ! i) = full \<or> home_name (games s ! i) = full)
               \<and> is_live e (status (games s ! i))) \<and>
          (\<exists>i<length (games s). away_name (games s ! i) = full \<or> home_name (games s ! i) = full) \<longrightarrow>
            r < length (games s) \<and> (away_name (games s ! r) = full \<or> home_name (games s ! r) = full)
              \<and> (\<forall>j<r. \<not> (away_name (games s ! j) = full \<or> home_name (games s ! j) = full))) \<and>
         (\<not> (\<exists>i<length (games s). away_name (games s ! i) = full \<or> home_name (games s ! i) = full) \<longrightarrow>
            r = current_game_index s)))"
proof (intro conjI allI impI)
  assume "preferred_teams cfg = []"
  then show "game_index_for_preferred_team e cfg s = Inr (current_game_index s)"
    by (simp add: game_index_for_preferred_team_def)
next
  fix t ts full
  assume a: "preferred_teams cfg = t # ts \<and> TEAM_FULL e t = Some full"
  then have "game_index_for_preferred_team e cfg s = game_index_for e s t"
    by (simp add: game_index_for_preferred_team_def)
  with game_index_for_least [of e t full s] a
  show "\<exists>r. game_index_for_preferred_team e cfg s = Inr r \<and>
         ((\<exists>i<length (games s). (away_name (games s ! i) = full \<or> home_name (games s ! i) = full)
               \<and> is_live e (status (games s ! i))) \<longrightarrow>
            r < length (games s) \<and> (away_name (games s ! r) = full \<or> home_name (games s ! r) = full)
              \<and> is_live e (status (games s ! r))
              \<and> (\<forall>j<r. \<not> ((away_name (games s ! j) = full \<or> home_name (games s ! j) = full)
                              \<and> is_live e (status (games s ! j))))) \<and>
         (\<not> (\<exists>i<length (games s). (away_name (games s ! i) = full \<or> home_name (games s ! i) = full)
               \<and> is_live e (status (games s ! i))) \<and>
          (\<exists>i<length (games s). away_name (games s ! i) = full \<or> home_name (games s ! i) = full) \<longrightarrow>
            r < length (games s) \<and> (away_name (games s ! r) = full \<or> home_name (games s ! r) = full)
              \<and> (\<forall>j<r. \<not> (away_name (games s ! j) = full \<or> home_name (games s ! j) = full))) \<and>
         (\<not> (\<exists>i<length (games s). away_name (games s ! i) = full \<or> home_name (games s ! i) = full) \<longrightarrow>
            r = current_game_index s)"
    by simp
qed

theorem preferred_team_index_witness:
  "preferred_teams ex_cfg = [''yankees''] \<and> TEAM_FULL ex_env ''yankees'' = Some ''Yankees'' \<and>
   is_live ex_env (status (ex_doubleheader ! 2)) \<and> home_name (ex_doubleheader ! 2) = ''Yankees'' \<and>
   away_name (ex_doubleheader ! 1) = ''Yankees'' \<and>
   game_index_for_preferred_team ex_env ex_cfg (ex_data\<lparr>games := ex_doubleheader\<rparr>) = Inr 2 \<and>
   game_index_for_preferred_team ex_env (ex_cfg\<lparr>preferred_teams := []\<rparr>)
     (ex_data\<lparr>games := ex_doubleheader\<rparr>) = Inr 0"
proof -
  let ?s = "ex_data\<lparr>games := ex_doubleheader\<rparr>"
  have h1: "preferred_teams ex_cfg = [''yankees'']" by (simp add: ex_cfg_def)
  have h2: "TEAM_FULL ex_env ''yankees'' = Some ''Yankees''" by (simp add: ex_env_def)
  have g2: "is_live ex_env (status (ex_doubleheader ! 2))" "home_name (ex_doubleheader ! 2) = ''Yankees''"
    by (simp_all add: ex_env_def ex_doubleheader_def)
  have g1: "away_name (ex_doubleheader ! 1) = ''Yankees''" "\<not> is_live ex_env (status (ex_doubleheader ! 1))"
    by (simp_all add: ex_env_def ex_doubleheader_def)
  have g0: "away_name (ex_doubleheader ! 0) \<noteq> ''Yankees''" "home_name (ex_doubleheader ! 0) \<noteq> ''Yankees''"
    by (simp_all add: ex_doubleheader_def)
  have len: "length (games ?s) = 3" by (simp add: ex_doubleheader_def)
  have live: "\<exists>i<length (games ?s). (away_name (games ?s ! i) = ''Yankees'' \<or> home_name (games ?s ! i) = ''Yankees'')
                \<and> is_live ex_env (status (games ?s ! i))"
    using g2 len by (intro exI[of _ 2]) simp
  from preferred_team_index [of ex_cfg ex_env ?s] h1 h2 live
  obtain r where r: "game_index_for_preferred_team ex_env ex_cfg ?s = Inr r"
    and rl: "r < length (games ?s)"
    and rlive: "is_live ex_env (status (games ?s ! r))"
    and rmatch: "away_name (games ?s ! r) = ''Yankees'' \<or> home_name (games ?s ! r) = ''Yankees''"
    by blast
  from rl len have "r = 0 \<or> r = 1 \<or> r = 2" by auto
  with rlive rmatch g1 g0 have "r = 2" by auto
  moreover have "game_index_for_preferred_team ex_env (ex_cfg\<lparr>preferred_teams := []\<rparr>) ?s = Inr 0"
    using preferred_team_index [of "ex_cfg\<lparr>preferred_teams := []\<rparr>" ex_env ?s]
    by (simp add: ex_data_def)
  ultimately show ?thesis using r h1 h2 g2 g1 by simp
qed

section \<open>Refreshing the catalog\<close>

lemma full_names_iff:
  "full_names e ts = Inr ns \<longleftrightarrow> map (TEAM_FULL e) ts = map Some ns"
proof (induction ts arbitrary: ns)
  case Nil
  show ?case by auto
next
  case (Cons t ts)
  show ?case
  proof (cases "TEAM_FULL e t")
    case None
    then show ?thesis by (cases ns) auto
  next
    case (Some n)
    show ?thesis
    proof (cases "full_names e ts")
      case (Inl x)
      with Some Cons.IH show ?thesis by (cases ns) auto
    next
      case (Inr ms)
      with Some Cons.IH show ?thesis by (cases ns) auto
    qed
  qed
qed

text \<open>
  C5. When the upstream list-games call fails, the catalog becomes the empty list and the
  network flag is set. When it succeeds the flag is cleared and the catalog is the provider's
  list, or, with \<open>rotation_only_preferred\<close>, the games of that list whose home or away name is
  one of the resolved preferred teams, in the provider's order.
\<close>

theorem catalog_refresh:
  "(schedule (date s) = None \<longrightarrow>
      refresh_games e cfg schedule s = (Inr (), s\<lparr>network_issues := True, games := []\<rparr>)) \<and>
   (\<forall>all_games. schedule (date s) = Some all_games \<and> \<not> rotation_only_preferred cfg \<longrightarrow>
      refresh_games e cfg schedule s = (Inr (), s\<lparr>network_issues := False, games := all_games\<rparr>)) \<and>
   (\<forall>all_games ns. schedule (date s) = Some all_games \<and> rotation_only_preferred cfg \<and>
        map (TEAM_FULL e) (preferred_teams cfg) = map Some ns \<longrightarrow>
      refresh_games e cfg schedule s =
        (Inr (), s\<lparr>network_issues := False,
                   games := filter (\<lambda>g. away_name g \<in> set ns \<or> home_name g \<in> set ns) all_games\<rparr>))"
proof (intro conjI allI impI)
  assume "schedule (date s) = None"
  then show "refresh_games e cfg schedule s = (Inr (), s\<lparr>network_issues := True, games := []\<rparr>)"
    by (simp add: refresh_games_def get_games_def)
next
  fix all_games
  assume "schedule (date s) = Some all_games \<and> \<not> rotation_only_preferred cfg"
  then show "refresh_games e cfg schedule s = (Inr (), s\<lparr>network_issues := False, games := all_games\<rparr>)"
    by (simp add: refresh_games_def get_games_def)
next
  fix all_games ns
  assume a: "schedule (date s) = Some all_games \<and> rotation_only_preferred cfg \<and>
        map (TEAM_FULL e) (preferred_teams cfg) = map Some ns"
  then have fn: "full_names e (preferred_teams cfg) = Inr ns" by (simp add: full_names_iff)
  have "filter (\<lambda>g. set [away_name g, home_name g] \<inter> set ns \<noteq> {}) all_games =
        filter (\<lambda>g. away_name g \<in> set ns \<or> home_name g \<in> set ns) all_games"
    by (rule filter_cong) auto
  with a fn show "refresh_games e cfg schedule s =
        (Inr (), s\<lparr>network_issues := False,
                   games := filter (\<lambda>g. away_name g \<in> set ns \<or> home_name g \<in> set ns) all_games\<rparr>)"
    by (simp add: refresh_games_def get_games_def filter_list_of_games_def)
qed

theorem catalog_refresh_witness:
  "refresh_games ex_env ex_cfg (\<lambda>_. None) ex_data
     = (Inr (), ex_data\<lparr>network_issues := True, games := []\<rparr>) \<and>
   \<not> rotation_only_preferred ex_cfg \<and>
   refresh_games ex_env ex_cfg (\<lambda>_. Some ex_doubleheader) (ex_data\<lparr>network_issues := True\<rparr>)
     = (Inr (), ex_data\<lparr>network_issues := False, games := ex_doubleheader\<rparr>) \<and>
   map (TEAM_FULL ex_env) (preferred_teams ex_cfg) = map Some [''Yankees''] \<and>
   refresh_games ex_env (ex_cfg\<lparr>rotation_only_preferred := True\<rparr>) (\<lambda>_. Some ex_doubleheader) ex_data
     = (Inr (), ex_data\<lparr>network_issues := False, games := [ex_doubleheader ! 1, ex_doubleheader ! 2]\<rparr>)"
proof -
  let ?c = "ex_cfg\<lparr>rotation_only_preferred := True\<rparr>"
  have h0: "(\<lambda>_. None :: game list option) (date ex_data) = None" by simp
  have h1: "(\<lambda>_. Some ex_doubleheader) (date (ex_data\<lparr>network_issues := True\<rparr>)) = Some ex_doubleheader
            \<and> \<not> rotation_only_preferred ex_cfg"
    by (simp add: ex_cfg_def)
  have h2: "(\<lambda>_. Some ex_doubleheader) (date ex_data) = Some ex_doubleheader \<and> rotation_only_preferred ?c \<and>
            map (TEAM_FULL ex_env) (preferred_teams ?c) = map Some [''Yankees'']"
    by (simp add: ex_cfg_def ex_env_def)
  have r0: "refresh_games ex_env ex_cfg (\<lambda>_. None) ex_data
              = (Inr (), ex_data\<lparr>network_issues := True, games := []\<rparr>)"
    using catalog_refresh [of "\<lambda>_. None" ex_data ex_env ex_cfg] h0 by blast
  have r1: "refresh_games ex_env ex_cfg (\<lambda>_. Some ex_doubleheader) (ex_data\<lparr>network_issues := True\<rparr>)
              = (Inr (), ex_data\<lparr>network_issues := True\<rparr>\<lparr>network_issues := False, games := ex_doubleheader\<rparr>)"
    using catalog_refresh [of "\<lambda>_. Some ex_doubleheader" "ex_data\<lparr>network_issues := True\<rparr>" ex_env ex_cfg] h1
    by blast
  have r2: "refresh_games ex_env ?c (\<lambda>_. Some ex_doubleheader) ex_data
              = (Inr (), ex_data\<lparr>network_issues := False,
                   games := filter (\<lambda>g. away_name g \<in> set [''Yankees''] \<or> home_name g \<in> set [''Yankees''])
                              ex_doubleheader\<rparr>)"
    using catalog_refresh [of "\<lambda>_. Some ex_doubleheader" ex_data ex_env ?c] h2 by blast
  have f: "filter (\<lambda>g. away_name g \<in> set [''Yankees''] \<or> home_name g \<in> set [''Yankees'']) ex_doubleheader
             = [ex_doubleheader ! 1, ex_doubleheader ! 2]"
    by (simp add: ex_doubleheader_def)
  show ?thesis using h1 h2 r0 r1 r2 f by simp
qed

section \<open>Standings survive failed refreshes\<close>

lemma fold_failed_refresh:
  "\<forall>f \<in> set fs. f (today s) = None \<Longrightarrow> fold refresh_standings fs s = s"
  by (induction fs) (simp_all add: refresh_standings_def)

text \<open>
  C7. After a successful standings fetch, any number of failed refreshes in a row leaves the
  state, and so the Standings object, as the successful fetch left it: \<open>current_standings\<close>
  answers as it did right after that fetch, and for a configured division that the fetched
  Standings contain it returns a division of that fetch with the configured name.
\<close>

theorem failed_standings_refresh:
  assumes "ok (today s) = Some st" and "\<forall>f \<in> set fs. f (today s) = None"
  shows "fold refresh_standings fs (refresh_standings ok s) = refresh_standings ok s \<and>
         standings (fold refresh_standings fs (refresh_standings ok s)) = Assigned st \<and>
         current_standings cfg (fold refresh_standings fs (refresh_standings ok s))
           = current_standings cfg (refresh_standings ok s) \<and>
         (\<forall>d \<in> set (divisions st).
            current_division_index s < length (preferred_divisions cfg) \<and>
            name d = preferred_divisions cfg ! current_division_index s \<longrightarrow>
            (\<exists>d'. current_standings cfg (fold refresh_standings fs (refresh_standings ok s)) = Inr d' \<and>
                  d' \<in> set (divisions st) \<and> name d' = name d))"
proof -
  let ?s1 = "refresh_standings ok s"
  have s1: "?s1 = s\<lparr>standings := Assigned st\<rparr>" using assms(1) by (simp add: refresh_standings_def)
  then have "today ?s1 = today s" by simp
  with assms(2) have keep: "fold refresh_standings fs ?s1 = ?s1" by (intro fold_failed_refresh) simp
  have found: "\<exists>d'. current_standings cfg ?s1 = Inr d' \<and> d' \<in> set (divisions st) \<and> name d' = name d"
    if d: "d \<in> set (divisions st)" and i: "current_division_index s < length (preferred_divisions cfg)"
      and n: "name d = preferred_divisions cfg ! current_division_index s" for d
  proof -
    let ?f = "filter (\<lambda>x. name x = name d) (divisions st)"
    from d have "d \<in> set ?f" by simp
    then obtain d' ds where c: "?f = d' # ds" by (cases ?f) auto
    then have "d' \<in> set ?f" by simp
    then have "d' \<in> set (divisions st)" "name d' = name d" by auto
    moreover from c i n have "current_standings cfg ?s1 = Inr d'"
      by (simp add: s1 current_standings_def standings_for_def)
    ultimately show ?thesis by blast
  qed
  show ?thesis using keep s1 found by auto
qed

theorem failed_standings_refresh_witness:
  "(\<lambda>_. Some ex_standings) (today ex_fresh) = Some ex_standings \<and>
   standings (fold refresh_standings [\<lambda>_. None, \<lambda>_. None]
                (refresh_standings (\<lambda>_. Some ex_standings) (ex_fresh\<lparr>standings := Unset\<rparr>)))
     = Assigned ex_standings \<and>
   current_standings ex_cfg (fold refresh_standings [\<lambda>_. None, \<lambda>_. None]
                (refresh_standings (\<lambda>_. Some ex_standings) (ex_fresh\<lparr>standings := Unset\<rparr>)))
     = Inr \<lparr>name = ''AL East'', rows = [''Yankees'', ''Red Sox'']\<rparr>"
proof -
  let ?s = "ex_fresh\<lparr>standings := Unset\<rparr>"
  let ?fs = "[\<lambda>_. None, \<lambda>_. None] :: (datetime \<Rightarrow> standings_obj option) list"
  let ?ok = "\<lambda>_ :: datetime. Some ex_standings"
  have h1: "?ok (today ?s) = Some ex_standings" by simp
  have h2: "\<forall>f \<in> set ?fs. f (today ?s) = None" by simp
  have now: "current_standings ex_cfg (refresh_standings ?ok ?s)
               = Inr \<lparr>name = ''AL East'', rows = [''Yankees'', ''Red Sox'']\<rparr>"
    by (simp add: refresh_standings_def current_standings_def standings_for_def ex_cfg_def
          ex_fresh_def ex_standings_def)
  from failed_standings_refresh [OF h1 h2, of ex_cfg]
  have "standings (fold refresh_standings ?fs (refresh_standings ?ok ?s)) = Assigned ex_standings"
    and "current_standings ex_cfg (fold refresh_standings ?fs (refresh_standings ?ok ?s))
           = current_standings ex_cfg (refresh_standings ?ok ?s)"
    by blast+
  with now show ?thesis by simp
qed

section \<open>Fetching the preferred team's game\<close>

lemma is_offday_cong:
  assumes "games s' = games s"
  shows "is_offday_for_preferred_team e cfg s' = is_offday_for_preferred_team e cfg s"
  unfolding is_offday_for_preferred_team_def assms by (rule refl)

lemma game_index_cong:
  assumes "games s' = games s" and "current_game_index s' = current_game_index s"
  shows "game_index_for_preferred_team e cfg s' = game_index_for_preferred_team e cfg s"
  unfolding game_index_for_preferred_team_def game_index_for_def assms by (rule refl)

lemma is_offday_resolved:
  "preferred_teams cfg = t # ts \<Longrightarrow> TEAM_FULL e t = Some full \<Longrightarrow>
     is_offday_for_preferred_team e cfg s
       = Inr (\<not> (\<exists>g \<in> set (games s). away_name g = full \<or> home_name g = full))"
  by (simp add: is_offday_for_preferred_team_def any_game_of_resolved)

lemma offday_False_index:
  assumes "is_offday_for_preferred_team e cfg s = Inr False"
  shows "\<exists>i. game_index_for_preferred_team e cfg s = Inr i \<and> i < length (games s)"
proof -
  from assms obtain t ts where t: "preferred_teams cfg = t # ts"
    by (cases "preferred_teams cfg") (auto simp: is_offday_for_preferred_team_def)
  with assms have "any_game_of e t (games s) = Inr True"
    by (auto simp: is_offday_for_preferred_team_def split: sum.splits)
  from any_game_of_True [OF this] obtain full g where full: "TEAM_FULL e t = Some full"
    and g: "g \<in> set (games s)" "away_name g = full \<or> home_name g = full" by blast
  from g obtain k where k: "k < length (games s)"
    "away_name (games s ! k) = full \<or> home_name (games s ! k) = full"
    by (auto simp: in_set_conv_nth)
  from game_index_for_least [OF full, of s] obtain r where r: "game_index_for e s t = Inr r"
    and live: "(\<exists>i<length (games s). (away_name (games s ! i) = full \<or> home_name (games s ! i) = full)
               \<and> is_live e (status (games s ! i))) \<longrightarrow> r < length (games s)"
    and nolive: "\<not> (\<exists>i<length (games s). (away_name (games s ! i) = full \<or> home_name (games s ! i) = full)
               \<and> is_live e (status (games s ! i))) \<and>
          (\<exists>i<length (games s). away_name (games s ! i) = full \<or> home_name (games s ! i) = full) \<longrightarrow>
            r < length (games s)"
    by blast
  from live nolive k have "r < length (games s)" by blast
  with r t show ?thesis by (simp add: game_index_for_preferred_team_def)
qed

lemma fetch_offday:
  "is_offday_for_preferred_team e cfg s = Inr True \<Longrightarrow>
     fetch_preferred_team_game_data e cfg get s = (Inr None, s)"
  by (simp add: fetch_preferred_team_game_data_def)

lemma fetch_failed:
  assumes "is_offday_for_preferred_team e cfg s = Inr False"
    and "game_index_for_preferred_team e cfg s = Inr i"
    and "get (game_id (games s ! i)) = None"
  shows "fetch_preferred_team_game_data e cfg get s =
           (case game_data s of
              Unset \<Rightarrow> (Inl AttributeError, s)
            | Assigned v \<Rightarrow> (Inr v, s\<lparr>network_issues := True\<rparr>))"
proof -
  from offday_False_index [OF assms(1)] assms(2) have "i < length (games s)" by simp
  with assms show ?thesis by (simp add: fetch_preferred_team_game_data_def)
qed

lemma fetch_succeeded:
  assumes "is_offday_for_preferred_team e cfg s = Inr False"
    and "game_index_for_preferred_team e cfg s = Inr i"
    and "get (game_id (games s ! i)) = Some d"
  shows "fetch_preferred_team_game_data e cfg get s = (Inr (Some d), s\<lparr>network_issues := False\<rparr>)"
proof -
  from offday_False_index [OF assms(1)] assms(2) have "i < length (games s)" by simp
  with assms show ?thesis by (simp add: fetch_preferred_team_game_data_def)
qed

text \<open>
  The three outcomes of \<open>fetch_preferred_team_game_data\<close> in a state that holds a cached
  detail record: \<open>None\<close> on an off day, the cached record with the network flag set when the
  fetch fails, the fetched record with the flag cleared when it succeeds.
\<close>

lemma fetch_preferred_team_game_data_cases:
  "(preferred_teams cfg = [] \<longrightarrow> fetch_preferred_team_game_data e cfg get s = (Inr None, s)) \<and>
   (\<forall>t ts full. preferred_teams cfg = t # ts \<and> TEAM_FULL e t = Some full \<and>
        (\<forall>g \<in> set (games s). away_name g \<noteq> full \<and> home_name g \<noteq> full) \<longrightarrow>
      fetch_preferred_team_game_data e cfg get s = (Inr None, s)) \<and>
   (\<forall>t ts full i. preferred_teams cfg = t # ts \<and> TEAM_FULL e t = Some full \<and>
        (\<exists>g \<in> set (games s). away_name g = full \<or> home_name g = full) \<and>
        game_index_for_preferred_team e cfg s = Inr i \<longrightarrow>
      (\<forall>v. get (game_id (games s ! i)) = None \<and> game_data s = Assigned v \<longrightarrow>
         fetch_preferred_team_game_data e cfg get s = (Inr v, s\<lparr>network_issues := True\<rparr>)) \<and>
      (\<forall>d. get (game_id (games s ! i)) = Some d \<longrightarrow>
         fetch_preferred_team_game_data e cfg get s = (Inr (Some d), s\<lparr>network_issues := False\<rparr>)))"
proof (intro conjI allI impI)
  assume "preferred_teams cfg = []"
  then show "fetch_preferred_team_game_data e cfg get s = (Inr None, s)"
    by (simp add: fetch_preferred_team_game_data_def is_offday_for_preferred_team_def)
next
  fix t ts full
  assume "preferred_teams cfg = t # ts \<and> TEAM_FULL e t = Some full \<and>
        (\<forall>g \<in> set (games s). away_name g \<noteq> full \<and> home_name g \<noteq> full)"
  then have "is_offday_for_preferred_team e cfg s = Inr True"
    by (auto simp: is_offday_resolved)
  then show "fetch_preferred_team_game_data e cfg get s = (Inr None, s)" by (rule fetch_offday)
next
  fix t ts full i v
  assume a: "preferred_teams cfg = t # ts \<and> TEAM_FULL e t = Some full \<and>
        (\<exists>g \<in> set (games s). away_name g = full \<or> home_name g = full) \<and>
        game_index_for_preferred_team e cfg s = Inr i"
    and b: "get (game_id (games s ! i)) = None \<and> game_data s = Assigned v"
  from a have "is_offday_for_preferred_team e cfg s = Inr False" by (auto simp: is_offday_resolved)
  from fetch_failed [OF this, of i get] a b
  show "fetch_preferred_team_game_data e cfg get s = (Inr v, s\<lparr>network_issues := True\<rparr>)" by simp
next
  fix t ts full i d
  assume a: "preferred_teams cfg = t # ts \<and> TEAM_FULL e t = Some full \<and>
        (\<exists>g \<in> set (games s). away_name g = full \<or> home_name g = full) \<and>
        game_index_for_preferred_team e cfg s = Inr i"
    and b: "get (game_id (games s ! i)) = Some d"
  from a have "is_offday_for_preferred_team e cfg s = Inr False" by (auto simp: is_offday_resolved)
  from fetch_succeeded [OF this, of i get d] a b
  show "fetch_preferred_team_game_data e cfg get s = (Inr (Some d), s\<lparr>network_issues := False\<rparr>)" by simp
qed

section \<open>Advancing the game cursor\<close>

lemma advance_plain_flag:
  "\<not> rotation_preferred_team_live_mid_inning cfg \<Longrightarrow>
     advance_to_next_game e cfg get s = advance_plain s"
  by (simp add: advance_to_next_game_def)

lemma advance_plain_offday:
  "is_offday_for_preferred_team e cfg s = Inr True \<Longrightarrow>
     advance_to_next_game e cfg get s = advance_plain s"
  by (simp add: advance_to_next_game_def)

lemma advance_fetch_failed:
  assumes flag: "rotation_preferred_team_live_mid_inning cfg"
    and off: "is_offday_for_preferred_team e cfg s = Inr False"
    and idx: "game_index_for_preferred_team e cfg s = Inr i"
    and get: "get (game_id (games s ! i)) = None"
    and cached: "game_data s = Assigned (Some d0)"
  shows "\<exists>l. advance_to_next_game e cfg get s =
           (Inr (games s ! i),
            s\<lparr>network_issues := True, current_game_index := i, game_data := Assigned (Some d0),
              needs_refresh := False, layout := l\<rparr>)"
proof -
  let ?s1 = "s\<lparr>network_issues := True\<rparr>"
  let ?s2 = "?s1\<lparr>current_game_index := i, game_data := Assigned (Some d0), needs_refresh := False\<rparr>"
  from offday_False_index [OF off] idx have i: "i < length (games s)" by simp
  have f: "fetch_preferred_team_game_data e cfg get s = (Inr (Some d0), ?s1)"
    using fetch_failed [of e cfg s i get, OF off idx get] cached by simp
  have c: "interrupt_condition e ?s1 (Some d0) = Inr True" by (simp add: interrupt_condition_def)
  have g: "game_index_for_preferred_team e cfg ?s1 = Inr i" using idx game_index_cong [of ?s1 s e cfg] by simp
  obtain l where u: "update_layout_state e ?s2 = (Inr (), ?s2\<lparr>layout := l\<rparr>)"
    using update_layout_state_ok [of ?s2 d0 e] by auto
  have cg: "current_game (?s2\<lparr>layout := l\<rparr>) = Inr (games s ! i)"
    using i by (simp add: current_game_def)
  have "advance_to_next_game e cfg get s = (Inr (games s ! i), ?s2\<lparr>layout := l\<rparr>)"
    using flag off f c g u cg by (simp add: advance_to_next_game_def)
  then show ?thesis by auto
qed

lemma advance_fetch_live:
  assumes flag: "rotation_preferred_team_live_mid_inning cfg"
    and off: "is_offday_for_preferred_team e cfg s = Inr False"
    and idx: "game_index_for_preferred_team e cfg s = Inr i"
    and get: "get (game_id (games s ! i)) = Some d"
    and live: "is_live e (detailedState d)" "inningState d = Some st" "\<not> is_inning_break e st"
  shows "\<exists>l. advance_to_next_game e cfg get s =
           (Inr (games s ! i),
            s\<lparr>network_issues := False, current_game_index := i, game_data := Assigned (Some d),
              needs_refresh := False, layout := l\<rparr>)"
proof -
  let ?s1 = "s\<lparr>network_issues := False\<rparr>"
  let ?s2 = "?s1\<lparr>current_game_index := i, game_data := Assigned (Some d), needs_refresh := False\<rparr>"
  from offday_False_index [OF off] idx have i: "i < length (games s)" by simp
  have f: "fetch_preferred_team_game_data e cfg get s = (Inr (Some d), ?s1)"
    using fetch_succeeded [of e cfg s i get d, OF off idx get] by simp
  have c: "interrupt_condition e ?s1 (Some d) = Inr True"
    using live by (simp add: interrupt_condition_def)
  have g: "game_index_for_preferred_team e cfg ?s1 = Inr i" using idx game_index_cong [of ?s1 s e cfg] by simp
  obtain l where u: "update_layout_state e ?s2 = (Inr (), ?s2\<lparr>layout := l\<rparr>)"
    using update_layout_state_ok [of ?s2 d e] by auto
  have cg: "current_game (?s2\<lparr>layout := l\<rparr>) = Inr (games s ! i)"
    using i by (simp add: current_game_def)
  have "advance_to_next_game e cfg get s = (Inr (games s ! i), ?s2\<lparr>layout := l\<rparr>)"
    using flag off f c g u cg by (simp add: advance_to_next_game_def)
  then show ?thesis by auto
qed

lemma advance_fetch_not_live:
  assumes flag: "rotation_preferred_team_live_mid_inning cfg"
    and off: "is_offday_for_preferred_team e cfg s = Inr False"
    and idx: "game_index_for_preferred_team e cfg s = Inr i"
    and get: "get (game_id (games s ! i)) = Some d"
    and quiet: "\<not> is_live e (detailedState d) \<or> (\<exists>st. inningState d = Some st \<and> is_inning_break e st)"
  shows "advance_to_next_game e cfg get s = advance_plain (s\<lparr>network_issues := False\<rparr>)"
proof -
  let ?s1 = "s\<lparr>network_issues := False\<rparr>"
  have f: "fetch_preferred_team_game_data e cfg get s = (Inr (Some d), ?s1)"
    using fetch_succeeded [of e cfg s i get d, OF off idx get] by simp
  have c: "interrupt_condition e ?s1 (Some d) = Inr False"
    using quiet by (auto simp: interrupt_condition_def)
  show ?thesis using flag off f c by (simp add: advance_to_next_game_def)
qed

lemma advance_plain_in_range:
  assumes "games s \<noteq> []"
  shows "advance_plain s =
           (Inr (games s ! next_game_index s), s\<lparr>current_game_index := next_game_index s\<rparr>)"
proof -
  have "next_game_index s < length (games s)"
    using assms by (auto simp: next_game_index_def Let_def)
  then show ?thesis by (simp add: advance_plain_def current_game_def Let_def)
qed

section \<open>A failed detail refresh\<close>

lemma refresh_game_data_failed_unfold:
  assumes "current_game_index s < length (games s)"
    and "get1 (game_id (games s ! current_game_index s)) = None"
  shows "refresh_game_data e cfg get1 get2 s =
           (if rotation_enabled cfg
            then (case advance_to_next_game e cfg get2 (s\<lparr>network_issues := True\<rparr>) of
                    (Inl x, s2) \<Rightarrow> (Inl x, s2)
                  | (Inr _, s2) \<Rightarrow> (Inr (), s2))
            else (Inr (), s\<lparr>network_issues := True\<rparr>))"
  using assms by (simp add: refresh_game_data_def current_game_def Let_def)

lemma next_game_index_mod:
  "current_game_index s < length (games s) \<Longrightarrow>
     next_game_index s = (current_game_index s + 1) mod length (games s)"
  by (auto simp: next_game_index_def Let_def mod_Suc)

text \<open>
  C2, as the code has it. With the cursor in range and the fetch of the current game failing,
  \<open>refresh_game_data\<close> raises nothing in the cases below. With rotation disabled it sets the
  network flag and leaves the cursor. With rotation enabled it hands over to
  \<open>advance_to_next_game\<close>: when the interrupt is switched off or the preferred team has no
  game, the flag stays set and the cursor becomes \<open>(i + 1) mod N\<close>; when the preferred team's
  game is fetched, the flag takes the outcome of that second fetch, and the cursor becomes the
  preferred game's index if that fetch fails with a detail record cached or shows a live game
  whose inning state is not an inning break, and \<open>(i + 1) mod N\<close> if it shows a game that is not
  live or a game whose inning state is an inning break.
\<close>

theorem refresh_game_data_failed_fetch:
  assumes inr: "current_game_index s < length (games s)"
    and fail: "get1 (game_id (games s ! current_game_index s)) = None"
  shows
    "(\<not> rotation_enabled cfg \<longrightarrow>
        refresh_game_data e cfg get1 get2 s = (Inr (), s\<lparr>network_issues := True\<rparr>)) \<and>
     (rotation_enabled cfg \<and>
        (\<not> rotation_preferred_team_live_mid_inning cfg \<or> is_offday_for_preferred_team e cfg s = Inr True) \<longrightarrow>
        refresh_game_data e cfg get1 get2 s =
          (Inr (), s\<lparr>network_issues := True,
                     current_game_index := (current_game_index s + 1) mod length (games s)\<rparr>)) \<and>
     (\<forall>i. rotation_enabled cfg \<and> rotation_preferred_team_live_mid_inning cfg \<and>
          is_offday_for_preferred_team e cfg s = Inr False \<and>
          game_index_for_preferred_team e cfg s = Inr i \<longrightarrow>
        (\<forall>d0. get2 (game_id (games s ! i)) = None \<and> game_data s = Assigned (Some d0) \<longrightarrow>
           (\<exists>l. refresh_game_data e cfg get1 get2 s =
                  (Inr (), s\<lparr>network_issues := True, current_game_index := i,
                             game_data := Assigned (Some d0), needs_refresh := False, layout := l\<rparr>))) \<and>
        (\<forall>d st. get2 (game_id (games s ! i)) = Some d \<and> is_live e (detailedState d) \<and>
             inningState d = Some st \<and> \<not> is_inning_break e st \<longrightarrow>
           (\<exists>l. refresh_game_data e cfg get1 get2 s =
                  (Inr (), s\<lparr>network_issues := False, current_game_index := i,
                             game_data := Assigned (Some d), needs_refresh := False, layout := l\<rparr>))) \<and>
        (\<forall>d. get2 (game_id (games s ! i)) = Some d \<and>
             (\<not> is_live e (detailedState d) \<or> (\<exists>st. inningState d = Some st \<and> is_inning_break e st)) \<longrightarrow>
           refresh_game_data e cfg get1 get2 s =
             (Inr (), s\<lparr>network_issues := False,
                        current_game_index := (current_game_index s + 1) mod length (games s)\<rparr>)))"
proof -
  let ?s1 = "s\<lparr>network_issues := True\<rparr>"
  let ?n = "(current_game_index s + 1) mod length (games s)"
  note unf = refresh_game_data_failed_unfold [of s get1 e cfg get2, OF inr fail]
  have ne: "games s \<noteq> []" using inr by auto
  have nxt: "next_game_index s = ?n" using inr by (rule next_game_index_mod)
  have nxt1: "next_game_index ?s1 = ?n" using nxt by (simp add: next_game_index_def)
  have plain1: "advance_plain ?s1 = (Inr (games s ! ?n), ?s1\<lparr>current_game_index := ?n\<rparr>)"
    using advance_plain_in_range [of ?s1] ne nxt1 by simp
  have nxt0: "next_game_index (s\<lparr>network_issues := False\<rparr>) = ?n"
    using nxt by (simp add: next_game_index_def)
  have plain0: "advance_plain (s\<lparr>network_issues := False\<rparr>)
                  = (Inr (games s ! ?n), s\<lparr>network_issues := False, current_game_index := ?n\<rparr>)"
    using advance_plain_in_range [of "s\<lparr>network_issues := False\<rparr>"] ne nxt0 by simp
  have off1: "is_offday_for_preferred_team e cfg ?s1 = is_offday_for_preferred_team e cfg s"
    by (rule is_offday_cong) simp
  have idx1: "game_index_for_preferred_team e cfg ?s1 = game_index_for_preferred_team e cfg s"
    by (rule game_index_cong) simp_all
  have A: "\<not> rotation_enabled cfg \<longrightarrow>
        refresh_game_data e cfg get1 get2 s = (Inr (), s\<lparr>network_issues := True\<rparr>)"
    using unf by simp
  have B: "rotation_enabled cfg \<and>
        (\<not> rotation_preferred_team_live_mid_inning cfg \<or> is_offday_for_preferred_team e cfg s = Inr True) \<longrightarrow>
        refresh_game_data e cfg get1 get2 s = (Inr (), s\<lparr>network_issues := True, current_game_index := ?n\<rparr>)"
  proof
    assume a: "rotation_enabled cfg \<and>
        (\<not> rotation_preferred_team_live_mid_inning cfg \<or> is_offday_for_preferred_team e cfg s = Inr True)"
    then have "advance_to_next_game e cfg get2 ?s1 = advance_plain ?s1"
      using advance_plain_flag [of cfg e get2 ?s1] advance_plain_offday [of e cfg ?s1 get2] off1 by auto
    with a unf plain1 show "refresh_game_data e cfg get1 get2 s
        = (Inr (), s\<lparr>network_issues := True, current_game_index := ?n\<rparr>)" by simp
  qed
  have C: "\<exists>l. refresh_game_data e cfg get1 get2 s =
                  (Inr (), s\<lparr>network_issues := True, current_game_index := i,
                             game_data := Assigned (Some d0), needs_refresh := False, layout := l\<rparr>)"
    if a: "rotation_enabled cfg \<and> rotation_preferred_team_live_mid_inning cfg \<and>
          is_offday_for_preferred_team e cfg s = Inr False \<and>
          game_index_for_preferred_team e cfg s = Inr i"
      and b: "get2 (game_id (games s ! i)) = None \<and> game_data s = Assigned (Some d0)" for i d0
  proof -
    from advance_fetch_failed [of cfg e ?s1 i get2 d0] a b off1 idx1
    obtain l where "advance_to_next_game e cfg get2 ?s1 =
        (Inr (games s ! i), s\<lparr>network_issues := True, current_game_index := i,
                             game_data := Assigned (Some d0), needs_refresh := False, layout := l\<rparr>)"
      by auto
    with a unf show ?thesis by auto
  qed
  have D: "\<exists>l. refresh_game_data e cfg get1 get2 s =
                  (Inr (), s\<lparr>network_issues := False, current_game_index := i,
                             game_data := Assigned (Some d), needs_refresh := False, layout := l\<rparr>)"
    if a: "rotation_enabled cfg \<and> rotation_preferred_team_live_mid_inning cfg \<and>
          is_offday_for_preferred_team e cfg s = Inr False \<and>
          game_index_for_preferred_team e cfg s = Inr i"
      and b: "get2 (game_id (games s ! i)) = Some d \<and> is_live e (detailedState d) \<and>
             inningState d = Some st \<and> \<not> is_inning_break e st" for i d st
  proof -
    from advance_fetch_live [of cfg e ?s1 i get2 d st] a b off1 idx1
    obtain l where "advance_to_next_game e cfg get2 ?s1 =
        (Inr (games s ! i), s\<lparr>network_issues := False, current_game_index := i,
                             game_data := Assigned (Some d), needs_refresh := False, layout := l\<rparr>)"
      by auto
    with a unf show ?thesis by auto
  qed
  have E: "refresh_game_data e cfg get1 get2 s =
             (Inr (), s\<lparr>network_issues := False, current_game_index := ?n\<rparr>)"
    if a: "rotation_enabled cfg \<and> rotation_preferred_team_live_mid_inning cfg \<and>
          is_offday_for_preferred_team e cfg s = Inr False \<and>
          game_index_for_preferred_team e cfg s = Inr i"
      and b: "get2 (game_id (games s ! i)) = Some d \<and>
             (\<not> is_live e (detailedState d) \<or> (\<exists>st. inningState d = Some st \<and> is_inning_break e st))"
    for i d
  proof -
    from advance_fetch_not_live [of cfg e ?s1 i get2 d] a b off1 idx1
    have "advance_to_next_game e cfg get2 ?s1 = advance_plain (s\<lparr>network_issues := False\<rparr>)"
      by simp
    with a unf plain0 show ?thesis by simp
  qed
  from A B C D E show ?thesis by blast
qed

theorem refresh_game_data_failed_fetch_witness:
  "current_game_index (ex_data\<lparr>games := ex_doubleheader\<rparr>) < length (games (ex_data\<lparr>games := ex_doubleheader\<rparr>)) \<and>
   (\<lambda>gid. if gid = 7 then None else Some ex_detail)
      (game_id (games (ex_data\<lparr>games := ex_doubleheader\<rparr>) ! current_game_index (ex_data\<lparr>games := ex_doubleheader\<rparr>))) = None \<and>
   rotation_enabled ex_cfg \<and> rotation_preferred_team_live_mid_inning ex_cfg \<and>
   is_offday_for_preferred_team ex_env ex_cfg (ex_data\<lparr>games := ex_doubleheader\<rparr>) = Inr False \<and>
   game_index_for_preferred_team ex_env ex_cfg (ex_data\<lparr>games := ex_doubleheader\<rparr>) = Inr 2 \<and>
   (\<exists>l. refresh_game_data ex_env ex_cfg (\<lambda>gid. if gid = 7 then None else Some ex_detail)
          (\<lambda>gid. if gid = 7 then None else Some ex_detail) (ex_data\<lparr>games := ex_doubleheader\<rparr>)
        = (Inr (), ex_data\<lparr>games := ex_doubleheader, network_issues := False, current_game_index := 2,
                     needs_refresh := False, layout := l\<rparr>)) \<and>
   refresh_game_data ex_env (ex_cfg\<lparr>rotation_enabled := False\<rparr>) (\<lambda>gid. if gid = 7 then None else Some ex_detail)
          (\<lambda>gid. if gid = 7 then None else Some ex_detail) (ex_data\<lparr>games := ex_doubleheader\<rparr>)
        = (Inr (), ex_data\<lparr>games := ex_doubleheader, network_issues := True\<rparr>)"
proof -
  let ?s = "ex_data\<lparr>games := ex_doubleheader\<rparr>"
  let ?get = "\<lambda>gid :: int. if gid = 7 then None else Some ex_detail"
  have h1: "current_game_index ?s < length (games ?s)" by (simp add: ex_data_def ex_doubleheader_def)
  have h2: "?get (game_id (games ?s ! current_game_index ?s)) = None"
    by (simp add: ex_data_def ex_doubleheader_def)
  have h3: "rotation_enabled ex_cfg \<and> rotation_preferred_team_live_mid_inning ex_cfg"
    by (simp add: ex_cfg_def)
  have h4: "is_offday_for_preferred_team ex_env ex_cfg ?s = Inr False"
    by (simp add: is_offday_for_preferred_team_def ex_env_def ex_cfg_def ex_doubleheader_def)
  have h5: "game_index_for_preferred_team ex_env ex_cfg ?s = Inr 2"
    by (simp add: game_index_for_preferred_team_def game_index_for_def ex_env_def ex_cfg_def
          ex_doubleheader_def)
  have h6: "?get (game_id (games ?s ! 2)) = Some ex_detail \<and> is_live ex_env (detailedState ex_detail) \<and>
            inningState ex_detail = Some ''Top'' \<and> \<not> is_inning_break ex_env ''Top''"
    by (simp add: ex_doubleheader_def ex_env_def ex_detail_def)
  have h7: "\<not> rotation_enabled (ex_cfg\<lparr>rotation_enabled := False\<rparr>)" by simp
  have gd: "game_data ex_data = Assigned (Some ex_detail)" by (simp add: ex_data_def)
  from refresh_game_data_failed_fetch [of ?s ?get ex_cfg ex_env ?get, OF h1 h2] h3 h4 h5 h6
  have "\<exists>l. refresh_game_data ex_env ex_cfg ?get ?get ?s =
          (Inr (), ?s\<lparr>network_issues := False, current_game_index := 2,
                      game_data := Assigned (Some ex_detail), needs_refresh := False, layout := l\<rparr>)"
    by blast
  then obtain l where "refresh_game_data ex_env ex_cfg ?get ?get ?s =
          (Inr (), ?s\<lparr>network_issues := False, current_game_index := 2,
                      game_data := Assigned (Some ex_detail), needs_refresh := False, layout := l\<rparr>)"
    by blast
  then have "refresh_game_data ex_env ex_cfg ?get ?get ?s =
          (Inr (), ex_data\<lparr>games := ex_doubleheader, network_issues := False, current_game_index := 2,
                     needs_refresh := False, layout := l\<rparr>)"
    by (simp add: ex_data_def)
  then have r1: "\<exists>l. refresh_game_data ex_env ex_cfg ?get ?get ?s =
          (Inr (), ex_data\<lparr>games := ex_doubleheader, network_issues := False, current_game_index := 2,
                     needs_refresh := False, layout := l\<rparr>)"
    by blast
  from refresh_game_data_failed_fetch [of ?s ?get "ex_cfg\<lparr>rotation_enabled := False\<rparr>" ex_env ?get, OF h1 h2] h7
  have r2: "refresh_game_data ex_env (ex_cfg\<lparr>rotation_enabled := False\<rparr>) ?get ?get ?s
              = (Inr (), ?s\<lparr>network_issues := True\<rparr>)"
    by blast
  show ?thesis using h1 h2 h3 h4 h5 r1 r2 by simp
qed

text \<open>
  The cursor is on the first of three games and its fetch fails; the preferred team's game, at
  position 2, is fetched next and is live in the top of an inning. The flag ends up cleared and
  the cursor on position 2, not on \<open>(0 + 1) mod 3\<close>.
\<close>

theorem refresh_game_data_interrupt_counterexample:
  "games (ex_data\<lparr>games := ex_doubleheader\<rparr>) \<noteq> [] \<and>
   rotation_enabled ex_cfg \<and>
   current_game (ex_data\<lparr>games := ex_doubleheader\<rparr>) = Inr (ex_doubleheader ! 0) \<and>
   (\<lambda>gid. if gid = 7 then None else Some ex_detail) (game_id (ex_doubleheader ! 0)) = None \<and>
   fst (refresh_game_data ex_env ex_cfg (\<lambda>gid. if gid = 7 then None else Some ex_detail)
          (\<lambda>gid. if gid = 7 then None else Some ex_detail) (ex_data\<lparr>games := ex_doubleheader\<rparr>)) = Inr () \<and>
   \<not> network_issues (snd (refresh_game_data ex_env ex_cfg (\<lambda>gid. if gid = 7 then None else Some ex_detail)
          (\<lambda>gid. if gid = 7 then None else Some ex_detail) (ex_data\<lparr>games := ex_doubleheader\<rparr>))) \<and>
   current_game_index (snd (refresh_game_data ex_env ex_cfg (\<lambda>gid. if gid = 7 then None else Some ex_detail)
          (\<lambda>gid. if gid = 7 then None else Some ex_detail) (ex_data\<lparr>games := ex_doubleheader\<rparr>))) = 2 \<and>
   (current_game_index (ex_data\<lparr>games := ex_doubleheader\<rparr>) + 1)
      mod length (games (ex_data\<lparr>games := ex_doubleheader\<rparr>)) = 1"
  by (simp add: refresh_game_data_def current_game_def advance_to_next_game_def
        fetch_preferred_team_game_data_def is_offday_for_preferred_team_def
        game_index_for_preferred_team_def game_index_for_def interrupt_condition_def
        update_layout_state_def Let_def
        ex_env_def ex_cfg_def ex_data_def ex_doubleheader_def ex_detail_def)

section \<open>Reading the current game and the current division\<close>

text \<open>
  On an empty catalog \<open>current_game\<close> raises IndexError, and \<open>current_standings\<close> raises
  StopIteration for a configured division that the Standings do not contain.
\<close>

theorem current_reads_raise_counterexample:
  "games (ex_data\<lparr>games := []\<rparr>) = [] \<and>
   current_game (ex_data\<lparr>games := []\<rparr>) = Inl IndexError \<and>
   standings ex_data = Assigned ex_standings \<and>
   preferred_divisions (ex_cfg\<lparr>preferred_divisions := [''AL West'']\<rparr>) ! current_division_index ex_data = ''AL West'' \<and>
   current_standings (ex_cfg\<lparr>preferred_divisions := [''AL West'']\<rparr>) ex_data = Inl StopIteration"
  by (simp add: current_game_def current_standings_def standings_for_def ex_data_def ex_standings_def)

text \<open>
  C6, as the code has it. \<open>current_game\<close> returns the game under the cursor when the cursor is
  in range and raises IndexError otherwise, in particular on an empty catalog.
  \<open>current_standings\<close>, with Standings fetched and the division cursor in range, returns a
  division of the Standings with the configured name when there is one and raises
  StopIteration when there is none.
\<close>

theorem current_reads:
  "(current_game_index s < length (games s) \<longrightarrow> current_game s = Inr (games s ! current_game_index s)) \<and>
   (length (games s) \<le> current_game_index s \<longrightarrow> current_game s = Inl IndexError) \<and>
   (games s = [] \<longrightarrow> current_game s = Inl IndexError) \<and>
   (\<forall>st. standings s = Assigned st \<and> current_division_index s < length (preferred_divisions cfg) \<longrightarrow>
      ((\<exists>d \<in> set (divisions st). name d = preferred_divisions cfg ! current_division_index s) \<longrightarrow>
         (\<exists>d. current_standings cfg s = Inr d \<and> d \<in> set (divisions st) \<and>
              name d = preferred_divisions cfg ! current_division_index s)) \<and>
      ((\<forall>d \<in> set (divisions st). name d \<noteq> preferred_divisions cfg ! current_division_index s) \<longrightarrow>
         current_standings cfg s = Inl StopIteration))"
proof (intro conjI allI impI)
  fix st
  assume a: "standings s = Assigned st \<and> current_division_index s < length (preferred_divisions cfg)"
    and b: "\<exists>d \<in> set (divisions st). name d = preferred_divisions cfg ! current_division_index s"
  let ?n = "preferred_divisions cfg ! current_division_index s"
  let ?f = "filter (\<lambda>x. name x = ?n) (divisions st)"
  from b have "?f \<noteq> []" by (auto simp: filter_empty_conv)
  then obtain d ds where c: "?f = d # ds" by (cases ?f) auto
  then have "d \<in> set ?f" by simp
  then have "d \<in> set (divisions st)" "name d = ?n" by auto
  moreover from a c have "current_standings cfg s = Inr d"
    by (simp add: current_standings_def standings_for_def)
  ultimately show "\<exists>d. current_standings cfg s = Inr d \<and> d \<in> set (divisions st) \<and> name d = ?n"
    by blast
next
  fix st
  assume a: "standings s = Assigned st \<and> current_division_index s < length (preferred_divisions cfg)"
    and b: "\<forall>d \<in> set (divisions st). name d \<noteq> preferred_divisions cfg ! current_division_index s"
  from b have "filter (\<lambda>x. name x = preferred_divisions cfg ! current_division_index s) (divisions st) = []"
    by (auto simp: filter_empty_conv)
  with a show "current_standings cfg s = Inl StopIteration"
    by (simp add: current_standings_def standings_for_def)
qed (auto simp: current_game_def)

theorem current_reads_witness:
  "current_game_index ex_data < length (games ex_data) \<and>
   current_game ex_data = Inr (ex_games ! 0) \<and>
   length (games (ex_data\<lparr>games := []\<rparr>)) \<le> current_game_index (ex_data\<lparr>games := []\<rparr>) \<and>
   current_game (ex_data\<lparr>games := []\<rparr>) = Inl IndexError \<and>
   standings ex_data = Assigned ex_standings \<and>
   (\<exists>d. current_standings ex_cfg ex_data = Inr d \<and> name d = ''AL East'') \<and>
   current_standings (ex_cfg\<lparr>preferred_divisions := [''AL West'']\<rparr>) ex_data = Inl StopIteration"
proof -
  let ?w = "ex_cfg\<lparr>preferred_divisions := [''AL West'']\<rparr>"
  have h1: "current_game_index ex_data < length (games ex_data)" by (simp add: ex_data_def ex_games_def)
  have h2: "length (games (ex_data\<lparr>games := []\<rparr>)) \<le> current_game_index (ex_data\<lparr>games := []\<rparr>)" by simp
  have h3: "standings ex_data = Assigned ex_standings \<and>
            current_division_index ex_data < length (preferred_divisions ex_cfg)"
    by (simp add: ex_data_def ex_cfg_def)
  have h3': "standings ex_data = Assigned ex_standings \<and>
            current_division_index ex_data < length (preferred_divisions ?w)"
    by (simp add: ex_data_def)
  have n: "preferred_divisions ex_cfg ! current_division_index ex_data = ''AL East''"
    "preferred_divisions ?w ! current_division_index ex_data = ''AL West''"
    by (simp_all add: ex_data_def ex_cfg_def)
  have h4: "\<exists>d \<in> set (divisions ex_standings). name d = preferred_divisions ex_cfg ! current_division_index ex_data"
    unfolding n by (simp add: ex_standings_def)
  have h5: "\<forall>d \<in> set (divisions ex_standings). name d \<noteq> preferred_divisions ?w ! current_division_index ex_data"
    unfolding n by (simp add: ex_standings_def)
  have r1: "current_game ex_data = Inr (games ex_data ! current_game_index ex_data)"
    using current_reads [of ex_data ex_cfg] h1 by blast
  have r2: "current_game (ex_data\<lparr>games := []\<rparr>) = Inl IndexError"
    using current_reads [of "ex_data\<lparr>games := []\<rparr>" ex_cfg] h2 by blast
  have r3: "\<exists>d. current_standings ex_cfg ex_data = Inr d \<and>
              name d = preferred_divisions ex_cfg ! current_division_index ex_data"
    using current_reads [of ex_data ex_cfg] h3 h4 by blast
  have r4: "current_standings ?w ex_data = Inl StopIteration"
    using current_reads [of ex_data ?w] h3' h5 by blast
  have g: "games ex_data ! current_game_index ex_data = ex_games ! 0" by (simp add: ex_data_def)
  show ?thesis using h1 h2 h3 r1 r2 r3 r4 g n by simp
qed

section \<open>The network flag\<close>

lemma refresh_standings_network_issues:
  "network_issues (refresh_standings fetch_standings s) = network_issues s"
  by (simp add: refresh_standings_def split: option.splits)

text \<open>
  C8. \<open>refresh_standings\<close> makes an upstream call and never writes the network flag: a failed
  refresh leaves a cleared flag cleared, and a successful one leaves a set flag set.
\<close>

theorem refresh_standings_keeps_network_flag:
  "\<not> network_issues ex_data \<and>
   \<not> network_issues (refresh_standings (\<lambda>_. None) ex_data) \<and>
   network_issues (ex_data\<lparr>network_issues := True\<rparr>) \<and>
   standings (refresh_standings (\<lambda>_. Some ex_standings) (ex_data\<lparr>network_issues := True\<rparr>))
     = Assigned ex_standings \<and>
   network_issues (refresh_standings (\<lambda>_. Some ex_standings) (ex_data\<lparr>network_issues := True\<rparr>))"
  by (simp add: refresh_standings_def ex_data_def)

section \<open>The interrupt before any detail is cached\<close>

text \<open>
  C1. The constructor leaves \<open>game_data\<close> unassigned. In that state, with the interrupt enabled
  and the preferred team playing, a failed fetch makes \<open>advance_to_next_game\<close> raise
  AttributeError from the handler that reads \<open>self.game_data\<close>; the cursor is not moved and
  no game is returned. With a record cached, \<open>advance_fetch_failed\<close> gives the behaviour the
  claim describes.
\<close>

theorem advance_without_cached_detail:
  "Data_init ex_env ex_cfg ex_now ex_now (\<lambda>_. Some ex_games) (\<lambda>_. Some ex_standings) = Inr ex_fresh \<and>
   rotation_preferred_team_live_mid_inning ex_cfg \<and>
   is_offday_for_preferred_team ex_env ex_cfg ex_fresh = Inr False \<and>
   game_index_for_preferred_team ex_env ex_cfg ex_fresh = Inr 0 \<and>
   advance_to_next_game ex_env ex_cfg (\<lambda>_. None) ex_fresh = (Inl AttributeError, ex_fresh)"
  by (simp add: Data_init_def parse_today_def datetime_gt_def refresh_games_def get_games_def date_def
        refresh_standings_def advance_to_next_game_def fetch_preferred_team_game_data_def
        is_offday_for_preferred_team_def game_index_for_preferred_team_def game_index_for_def
        ex_env_def ex_cfg_def ex_now_def ex_fresh_def ex_games_def)

section \<open>Resolving the sports day\<close>




section \<open>Rotation cursors\<close>

text \<open>
  C9. Where the preferred-team interrupt does not apply, advancing a cursor is a modulo
  increment: for an in-range index \<open>i\<close> over \<open>N\<close> elements the next index is \<open>(i + 1) mod N\<close>,
  and for \<open>N = 0\<close> it is \<open>0\<close>. \<open>advance_to_next_game\<close> moves the cursor to that index and
  reads the game there when the interrupt is switched off, when the preferred team has no
  game, and when the preferred team's game was fetched and is not live or is in an inning
  break (the fetch then also clears the network flag). \<open>advance_to_next_standings\<close> moves the
  division cursor over \<open>preferred_divisions\<close> in the same way.
\<close>

theorem cursor_modulo_increment:
  "(current_game_index s < length (games s) \<longrightarrow>
      next_game_index s = (current_game_index s + 1) mod length (games s)) \<and>
   (length (games s) = 0 \<longrightarrow> next_game_index s = 0) \<and>
   (\<not> rotation_preferred_team_live_mid_inning cfg \<or>
      is_offday_for_preferred_team e cfg s = Inr True \<longrightarrow>
      advance_to_next_game e cfg get s =
        (current_game (s\<lparr>current_game_index := next_game_index s\<rparr>),
         s\<lparr>current_game_index := next_game_index s\<rparr>)) \<and>
   (\<forall>i d. rotation_preferred_team_live_mid_inning cfg \<and>
          is_offday_for_preferred_team e cfg s = Inr False \<and>
          game_index_for_preferred_team e cfg s = Inr i \<and>
          get (game_id (games s ! i)) = Some d \<and>
          (\<not> is_live e (detailedState d) \<or> (\<exists>st. inningState d = Some st \<and> is_inning_break e st)) \<longrightarrow>
      advance_to_next_game e cfg get s =
        (current_game (s\<lparr>network_issues := False, current_game_index := next_game_index s\<rparr>),
         s\<lparr>network_issues := False, current_game_index := next_game_index s\<rparr>)) \<and>
   (current_division_index s < length (preferred_divisions cfg) \<longrightarrow>
      next_division_index cfg s = (current_division_index s + 1) mod length (preferred_divisions cfg)) \<and>
   (length (preferred_divisions cfg) = 0 \<longrightarrow> next_division_index cfg s = 0) \<and>
   advance_to_next_standings cfg s =
     (current_standings cfg (s\<lparr>current_division_index := next_division_index cfg s\<rparr>),
      s\<lparr>current_division_index := next_division_index cfg s\<rparr>)"
proof -
  have A: "current_game_index s < length (games s) \<longrightarrow>
      next_game_index s = (current_game_index s + 1) mod length (games s)"
    by (auto simp: next_game_index_def Let_def mod_Suc)
  have B: "length (games s) = 0 \<longrightarrow> next_game_index s = 0"
    by (simp add: next_game_index_def)
  have C: "\<not> rotation_preferred_team_live_mid_inning cfg \<or>
      is_offday_for_preferred_team e cfg s = Inr True \<longrightarrow>
      advance_to_next_game e cfg get s =
        (current_game (s\<lparr>current_game_index := next_game_index s\<rparr>),
         s\<lparr>current_game_index := next_game_index s\<rparr>)"
    using advance_plain_flag [of cfg e get s] advance_plain_offday [of e cfg s get]
    by (auto simp: advance_plain_def Let_def)
  have D: "advance_to_next_game e cfg get s =
        (current_game (s\<lparr>network_issues := False, current_game_index := next_game_index s\<rparr>),
         s\<lparr>network_issues := False, current_game_index := next_game_index s\<rparr>)"
    if a: "rotation_preferred_team_live_mid_inning cfg \<and>
          is_offday_for_preferred_team e cfg s = Inr False \<and>
          game_index_for_preferred_team e cfg s = Inr i \<and>
          get (game_id (games s ! i)) = Some d \<and>
          (\<not> is_live e (detailedState d) \<or> (\<exists>st. inningState d = Some st \<and> is_inning_break e st))"
    for i d
  proof -
    have n: "next_game_index (s\<lparr>network_issues := False\<rparr>) = next_game_index s"
      by (simp add: next_game_index_def)
    from advance_fetch_not_live [of cfg e s i get d] a
    have "advance_to_next_game e cfg get s = advance_plain (s\<lparr>network_issues := False\<rparr>)" by blast
    then show ?thesis by (simp add: advance_plain_def Let_def n)
  qed
  have E: "current_division_index s < length (preferred_divisions cfg) \<longrightarrow>
      next_division_index cfg s = (current_division_index s + 1) mod length (preferred_divisions cfg)"
    by (auto simp: next_division_index_def Let_def mod_Suc)
  have F: "length (preferred_divisions cfg) = 0 \<longrightarrow> next_division_index cfg s = 0"
    by (simp add: next_division_index_def)
  have G: "advance_to_next_standings cfg s =
     (current_standings cfg (s\<lparr>current_division_index := next_division_index cfg s\<rparr>),
      s\<lparr>current_division_index := next_division_index cfg s\<rparr>)"
    by (simp add: advance_to_next_standings_def Let_def)
  from A B C D E F G show ?thesis by blast
qed

theorem cursor_modulo_increment_witness:
  "current_game_index ex_data < length (games ex_data) \<and>
   next_game_index ex_data = 1 \<and>
   length (games (ex_data\<lparr>games := []\<rparr>)) = 0 \<and>
   next_game_index (ex_data\<lparr>games := []\<rparr>) = 0 \<and>
   \<not> rotation_preferred_team_live_mid_inning (ex_cfg\<lparr>rotation_preferred_team_live_mid_inning := False\<rparr>) \<and>
   advance_to_next_game ex_env (ex_cfg\<lparr>rotation_preferred_team_live_mid_inning := False\<rparr>)
       (\<lambda>_. None) ex_data
     = (Inr (ex_games ! 1), ex_data\<lparr>current_game_index := 1\<rparr>) \<and>
   rotation_preferred_team_live_mid_inning ex_cfg \<and>
   is_offday_for_preferred_team ex_env ex_cfg (ex_data\<lparr>games := [ex_games ! 1]\<rparr>) = Inr True \<and>
   advance_to_next_game ex_env ex_cfg (\<lambda>_. None) (ex_data\<lparr>games := [ex_games ! 1]\<rparr>)
     = (Inr (ex_games ! 1), ex_data\<lparr>games := [ex_games ! 1], current_game_index := 0\<rparr>) \<and>
   is_offday_for_preferred_team ex_env ex_cfg ex_data = Inr False \<and>
   game_index_for_preferred_team ex_env ex_cfg ex_data = Inr 0 \<and>
   \<not> is_live ex_env (detailedState (ex_detail\<lparr>detailedState := ''Final''\<rparr>)) \<and>
   advance_to_next_game ex_env ex_cfg (\<lambda>_. Some (ex_detail\<lparr>detailedState := ''Final''\<rparr>)) ex_data
     = (Inr (ex_games ! 1), ex_data\<lparr>network_issues := False, current_game_index := 1\<rparr>) \<and>
   is_inning_break ex_env ''Middle'' \<and>
   advance_to_next_game ex_env ex_cfg (\<lambda>_. Some (ex_detail\<lparr>inningState := Some ''Middle''\<rparr>)) ex_data
     = (Inr (ex_games ! 1), ex_data\<lparr>network_issues := False, current_game_index := 1\<rparr>) \<and>
   current_division_index (ex_data\<lparr>current_division_index := 1\<rparr>) < length (preferred_divisions ex_cfg) \<and>
   next_division_index ex_cfg (ex_data\<lparr>current_division_index := 1\<rparr>) = 0 \<and>
   length (preferred_divisions (ex_cfg\<lparr>preferred_divisions := []\<rparr>)) = 0 \<and>
   next_division_index (ex_cfg\<lparr>preferred_divisions := []\<rparr>) ex_data = 0"
proof -
  let ?c = "ex_cfg\<lparr>rotation_preferred_team_live_mid_inning := False\<rparr>"
  let ?one = "ex_data\<lparr>games := [ex_games ! 1]\<rparr>"
  let ?final = "ex_detail\<lparr>detailedState := ''Final''\<rparr>"
  let ?mid = "ex_detail\<lparr>inningState := Some ''Middle''\<rparr>"
  let ?gf = "\<lambda>_ :: int. Some ?final"
  let ?gm = "\<lambda>_ :: int. Some ?mid"
  let ?gn = "\<lambda>_ :: int. None :: game_detail option"
  have h1: "current_game_index ex_data < length (games ex_data)"
    by (simp add: ex_data_def ex_games_def)
  have h2: "length (games (ex_data\<lparr>games := []\<rparr>)) = 0" by simp
  have h3: "\<not> rotation_preferred_team_live_mid_inning ?c" by simp
  have h4: "current_division_index (ex_data\<lparr>current_division_index := 1\<rparr>) < length (preferred_divisions ex_cfg)"
    by (simp add: ex_cfg_def)
  have h5: "length (preferred_divisions (ex_cfg\<lparr>preferred_divisions := []\<rparr>)) = 0" by simp
  have h6: "rotation_preferred_team_live_mid_inning ex_cfg" by (simp add: ex_cfg_def)
  have h7: "is_offday_for_preferred_team ex_env ex_cfg ?one = Inr True"
    by (simp add: is_offday_for_preferred_team_def ex_env_def ex_cfg_def ex_games_def)
  have h8: "is_offday_for_preferred_team ex_env ex_cfg ex_data = Inr False"
    by (simp add: is_offday_for_preferred_team_def ex_env_def ex_cfg_def ex_data_def ex_games_def)
  have h9: "game_index_for_preferred_team ex_env ex_cfg ex_data = Inr 0"
    by (simp add: game_index_for_preferred_team_def game_index_for_def ex_env_def ex_cfg_def
          ex_data_def ex_games_def)
  have h10: "\<not> is_live ex_env (detailedState ?final)" by (simp add: ex_env_def)
  have h11: "is_inning_break ex_env ''Middle''" by (simp add: ex_env_def)
  have h12: "?gf (game_id (games ex_data ! 0)) = Some ?final \<and>
             (\<not> is_live ex_env (detailedState ?final) \<or>
              (\<exists>st. inningState ?final = Some st \<and> is_inning_break ex_env st))"
    using h10 by simp
  have h13: "?gm (game_id (games ex_data ! 0)) = Some ?mid \<and>
             (\<not> is_live ex_env (detailedState ?mid) \<or>
              (\<exists>st. inningState ?mid = Some st \<and> is_inning_break ex_env st))"
    using h11 by simp
  have r1: "next_game_index ex_data = 1"
    using cursor_modulo_increment [of ex_data ?c ex_env ?gn] h1
    by (simp add: ex_data_def ex_games_def)
  have r2: "next_game_index (ex_data\<lparr>games := []\<rparr>) = 0"
    using cursor_modulo_increment [of "ex_data\<lparr>games := []\<rparr>" ex_cfg ex_env ?gn] h2 by blast
  have "advance_to_next_game ex_env ?c ?gn ex_data =
          (current_game (ex_data\<lparr>current_game_index := next_game_index ex_data\<rparr>),
           ex_data\<lparr>current_game_index := next_game_index ex_data\<rparr>)"
    using cursor_modulo_increment [of ex_data ?c ex_env ?gn] h3 by blast
  then have r3: "advance_to_next_game ex_env ?c ?gn ex_data
                   = (Inr (ex_games ! 1), ex_data\<lparr>current_game_index := 1\<rparr>)"
    by (simp add: r1) (simp add: current_game_def ex_data_def ex_games_def)
  have n1: "next_game_index ?one = 0" by (simp add: next_game_index_def ex_data_def)
  have "advance_to_next_game ex_env ex_cfg ?gn ?one =
          (current_game (?one\<lparr>current_game_index := next_game_index ?one\<rparr>),
           ?one\<lparr>current_game_index := next_game_index ?one\<rparr>)"
    using cursor_modulo_increment [of ?one ex_cfg ex_env ?gn] h7 by blast
  then have r4: "advance_to_next_game ex_env ex_cfg ?gn ?one
                   = (Inr (ex_games ! 1), ex_data\<lparr>games := [ex_games ! 1], current_game_index := 0\<rparr>)"
    by (simp only: n1) (simp add: current_game_def)
  have "advance_to_next_game ex_env ex_cfg ?gf ex_data =
          (current_game (ex_data\<lparr>network_issues := False, current_game_index := next_game_index ex_data\<rparr>),
           ex_data\<lparr>network_issues := False, current_game_index := next_game_index ex_data\<rparr>)"
    using cursor_modulo_increment [of ex_data ex_cfg ex_env ?gf] h6 h8 h9 h12 by blast
  then have r5: "advance_to_next_game ex_env ex_cfg ?gf ex_data
                   = (Inr (ex_games ! 1), ex_data\<lparr>network_issues := False, current_game_index := 1\<rparr>)"
    by (simp add: r1) (simp add: current_game_def ex_data_def ex_games_def)
  have "advance_to_next_game ex_env ex_cfg ?gm ex_data =
          (current_game (ex_data\<lparr>network_issues := False, current_game_index := next_game_index ex_data\<rparr>),
           ex_data\<lparr>network_issues := False, current_game_index := next_game_index ex_data\<rparr>)"
    using cursor_modulo_increment [of ex_data ex_cfg ex_env ?gm] h6 h8 h9 h13 by blast
  then have r6: "advance_to_next_game ex_env ex_cfg ?gm ex_data
                   = (Inr (ex_games ! 1), ex_data\<lparr>network_issues := False, current_game_index := 1\<rparr>)"
    by (simp add: r1) (simp add: current_game_def ex_data_def ex_games_def)
  have r7: "next_division_index ex_cfg (ex_data\<lparr>current_division_index := 1\<rparr>) = 0"
    using cursor_modulo_increment [of "ex_data\<lparr>current_division_index := 1\<rparr>" ex_cfg ex_env ?gn] h4
    by (simp add: ex_cfg_def)
  have r8: "next_division_index (ex_cfg\<lparr>preferred_divisions := []\<rparr>) ex_data = 0"
    using cursor_modulo_increment [of ex_data "ex_cfg\<lparr>preferred_divisions := []\<rparr>" ex_env ?gn] h5 by blast
  show ?thesis
    using h1 h2 h3 h4 h5 h6 h7 h8 h9 h10 h11 r1 r2 r3 r4 r5 r6 r7 r8 by blast
qed

section \<open>Fetching before any detail is cached\<close>

text \<open>
  C10. In the state the constructor leaves, with the preferred team playing, a failed fetch
  does not return a cached record with the network flag set: the handler's read of
  \<open>self.game_data\<close> raises AttributeError before the flag is written, and the state is as it
  was. With a record cached, \<open>fetch_preferred_team_game_data_cases\<close> gives the three outcomes
  the claim describes.
\<close>

theorem fetch_without_cached_detail:
  "Data_init ex_env ex_cfg ex_now ex_now (\<lambda>_. Some ex_games) (\<lambda>_. Some ex_standings) = Inr ex_fresh \<and>
   is_offday_for_preferred_team ex_env ex_cfg ex_fresh = Inr False \<and>
   game_data ex_fresh = Unset \<and>
   \<not> network_issues ex_fresh \<and>
   fetch_preferred_team_game_data ex_env ex_cfg (\<lambda>_. None) ex_fresh = (Inl AttributeError, ex_fresh)"
  by (simp add: Data_init_def parse_today_def datetime_gt_def refresh_games_def get_games_def date_def
        refresh_standings_def fetch_preferred_team_game_data_def
        is_offday_for_preferred_team_def game_index_for_preferred_team_def game_index_for_def
        ex_env_def ex_cfg_def ex_now_def ex_fresh_def ex_games_def)

end
